theory Spec2Isabelle
  imports Complex_Main
begin

section \<open>The mimic joint plugin of xarm_gazebo\<close>

text \<open>
  A shallow embedding of \<^verbatim>\<open>src/xarm_gazebo/src/mimic_joint_plugin.cpp\<close>: the class
  \<^verbatim>\<open>GazeboMimicJointPlugin\<close> with its constructor, \<^verbatim>\<open>Load\<close> and \<^verbatim>\<open>OnUpdate\<close>.

  The plugin talks to three hosts: the physics engine (joints), the SDF element
  with the plugin's configuration, and the ROS node (logger and parameters). Their
  objects are modelled by what the plugin reads from them; every call the plugin
  makes that writes to a joint or to the log is recorded, in order, as an
  \<open>effect\<close>. The arithmetic is that of C++ \<^verbatim>\<open>double\<close>: IEEE 754 binary64, every
  operation rounded on its own to nearest, ties to even, with infinities and NaN (a
  product and a sum are two roundings: no fused multiply-add).
\<close>

subsection \<open>Binary64 arithmetic\<close>

text \<open>
  A \<^verbatim>\<open>double\<close>: a finite number, an infinity or NaN. The two zeros, which compare
  equal, are one value here, and so are all NaNs.
\<close>

datatype double = Finite real | PInf | MInf | NaN

definition pow2 :: "int \<Rightarrow> real" where
  "pow2 e = (if 0 \<le> e then 2 ^ nat e else 1 / 2 ^ nat (- e))"

text \<open>
  The binary exponent of a positive number, \<open>floor (log 2 x)\<close>, by halving down to
  \<open>[1, 2)\<close> or doubling up to it.
\<close>

function ilog2_up :: "real \<Rightarrow> int" where
  "ilog2_up x = (if x < 2 then 0 else ilog2_up (x / 2) + 1)"
  by pat_completeness auto
termination
proof (relation "measure (\<lambda>x. nat \<lfloor>x\<rfloor>)")
  show "wf (measure (\<lambda>x::real. nat \<lfloor>x\<rfloor>))" by simp
next
  fix x :: real
  assume large: "\<not> x < 2"
  then have "x / 2 \<le> x - 1" by simp
  then have "\<lfloor>x / 2\<rfloor> \<le> \<lfloor>x - 1\<rfloor>" by (rule floor_mono)
  moreover from large have "2 \<le> \<lfloor>x\<rfloor>" by (simp add: le_floor_iff)
  ultimately show "(x / 2, x) \<in> measure (\<lambda>x. nat \<lfloor>x\<rfloor>)" by simp
qed

function ilog2_down :: "real \<Rightarrow> int" where
  "ilog2_down x = (if x \<le> 0 \<or> 1 \<le> x then 0 else ilog2_down (x * 2) - 1)"
  by pat_completeness auto
termination
proof (relation "measure (\<lambda>x. nat \<lceil>1 / x\<rceil>)")
  show "wf (measure (\<lambda>x::real. nat \<lceil>1 / x\<rceil>))" by simp
next
  fix x :: real
  assume "\<not> (x \<le> 0 \<or> 1 \<le> x)"
  then have x: "0 < x" "x < 1" by simp_all
  then have one: "1 < 1 / x" by simp
  have "\<lceil>1 / (x * 2)\<rceil> < \<lceil>1 / x\<rceil>"
  proof (cases "1 / x \<le> 2")
    case True
    with x have "1 / (x * 2) \<le> 1" by (simp add: field_simps)
    then have "\<lceil>1 / (x * 2)\<rceil> \<le> 1" by (simp add: ceiling_le_iff)
    moreover from one have "1 < \<lceil>1 / x\<rceil>" by (simp add: less_ceiling_iff)
    ultimately show ?thesis by linarith
  next
    case False
    with x have "1 / (x * 2) \<le> 1 / x - 1" by (simp add: field_simps)
    then have "\<lceil>1 / (x * 2)\<rceil> \<le> \<lceil>1 / x - 1\<rceil>" by (rule ceiling_mono)
    then show ?thesis by simp
  qed
  moreover from x have "0 < \<lceil>1 / x\<rceil>" by (simp add: less_ceiling_iff)
  ultimately show "(x * 2, x) \<in> measure (\<lambda>x. nat \<lceil>1 / x\<rceil>)" by simp
qed

declare ilog2_up.simps [simp del] ilog2_down.simps [simp del]

definition ilog2 :: "real \<Rightarrow> int" where
  "ilog2 x = (if 1 \<le> x then ilog2_up x else ilog2_down x)"

definition round_half_even :: "real \<Rightarrow> int" where
  "round_half_even y =
     (let f = \<lfloor>y\<rfloor>; r = y - of_int f
      in if r < 1 / 2 then f else if 1 / 2 < r then f + 1 else if even f then f else f + 1)"

text \<open>
  Rounding a real number to binary64. With \<open>e\<close> the exponent of \<open>x\<close>, not below that of
  the subnormal numbers, the result is the multiple of \<open>2 ^ (e - 52)\<close> nearest to \<open>x\<close>, the
  even one in a tie; a result of magnitude \<open>2 ^ 1024\<close> or more is an infinity.
\<close>

definition round_double :: "real \<Rightarrow> double" where
  "round_double x =
     (if x = 0 then Finite 0
      else let e = max (ilog2 \<bar>x\<bar>) (- 1022);
               n = round_half_even (x / pow2 (e - 52))
           in if 1023 < e \<or> (e = 1023 \<and> 2 ^ 53 \<le> \<bar>n\<bar>)
              then (if 0 < x then PInf else MInf)
              else Finite (of_int n * pow2 (e - 52)))"

fun is_negative :: "double \<Rightarrow> bool" where
  "is_negative (Finite x) = (x < 0)"
| "is_negative MInf = True"
| "is_negative d = False"

text \<open>Unary minus and \<^verbatim>\<open>fabs\<close>.\<close>

fun fneg :: "double \<Rightarrow> double" where
  "fneg (Finite x) = Finite (- x)"
| "fneg PInf = MInf"
| "fneg MInf = PInf"
| "fneg NaN = NaN"

fun fabs :: "double \<Rightarrow> double" where
  "fabs (Finite x) = Finite \<bar>x\<bar>"
| "fabs PInf = PInf"
| "fabs MInf = PInf"
| "fabs NaN = NaN"

text \<open>The operators \<^verbatim>\<open>+\<close>, \<^verbatim>\<open>-\<close>, \<^verbatim>\<open>*\<close> and \<^verbatim>\<open>/\<close> on \<^verbatim>\<open>double\<close>.\<close>

fun fadd :: "double \<Rightarrow> double \<Rightarrow> double" where
  "fadd (Finite x) (Finite y) = round_double (x + y)"
| "fadd NaN b = NaN"
| "fadd a NaN = NaN"
| "fadd PInf MInf = NaN"
| "fadd MInf PInf = NaN"
| "fadd PInf b = PInf"
| "fadd MInf b = MInf"
| "fadd a PInf = PInf"
| "fadd a MInf = MInf"

definition fsub :: "double \<Rightarrow> double \<Rightarrow> double" where
  "fsub a b = fadd a (fneg b)"

definition fmul :: "double \<Rightarrow> double \<Rightarrow> double" where
  "fmul a b =
     (case (a, b) of
        (Finite x, Finite y) \<Rightarrow> round_double (x * y)
      | _ \<Rightarrow>
        if a = NaN \<or> b = NaN \<or> a = Finite 0 \<or> b = Finite 0 then NaN
        else if is_negative a \<noteq> is_negative b then MInf else PInf)"

definition fdiv :: "double \<Rightarrow> double \<Rightarrow> double" where
  "fdiv a b =
     (case (a, b) of
        (Finite x, Finite y) \<Rightarrow>
          if y = 0 then (if x = 0 then NaN else if x < 0 then MInf else PInf)
          else round_double (x / y)
      | (Finite x, PInf) \<Rightarrow> Finite 0
      | (Finite x, MInf) \<Rightarrow> Finite 0
      | (PInf, Finite y) \<Rightarrow> (if y < 0 then MInf else PInf)
      | (MInf, Finite y) \<Rightarrow> (if y < 0 then PInf else MInf)
      | _ \<Rightarrow> NaN)"

text \<open>The comparisons \<^verbatim>\<open><\<close>, \<^verbatim>\<open><=\<close> and \<^verbatim>\<open>>=\<close>: false whenever an operand is NaN.\<close>

fun dless :: "double \<Rightarrow> double \<Rightarrow> bool" where
  "dless (Finite x) (Finite y) = (x < y)"
| "dless NaN b = False"
| "dless a NaN = False"
| "dless PInf b = False"
| "dless a MInf = False"
| "dless a PInf = True"
| "dless MInf b = True"

fun dle :: "double \<Rightarrow> double \<Rightarrow> bool" where
  "dle (Finite x) (Finite y) = (x \<le> y)"
| "dle NaN b = False"
| "dle a NaN = False"
| "dle a PInf = True"
| "dle MInf b = True"
| "dle PInf b = False"
| "dle a MInf = False"

definition dge :: "double \<Rightarrow> double \<Rightarrow> bool" where
  "dge a b = dle b a"

text \<open>
  \<^verbatim>\<open>std::min(a, b)\<close> is \<^verbatim>\<open>(b < a) ? b : a\<close> and \<^verbatim>\<open>std::max(a, b)\<close> is \<^verbatim>\<open>(a < b) ? b : a\<close>;
  \<^verbatim>\<open>ignition::math::clamp(v, min, max)\<close> is \<^verbatim>\<open>std::max(std::min(v, max), min)\<close>.
\<close>

definition std_min :: "double \<Rightarrow> double \<Rightarrow> double" where
  "std_min a b = (if dless b a then b else a)"

definition std_max :: "double \<Rightarrow> double \<Rightarrow> double" where
  "std_max a b = (if dless a b then b else a)"

definition clamp :: "double \<Rightarrow> double \<Rightarrow> double \<Rightarrow> double" where
  "clamp v mn mx = std_max (std_min v mx) mn"

text \<open>
  Conversions between \<^verbatim>\<open>double\<close> and 64-bit integers: an integer is rounded; a
  \<^verbatim>\<open>double\<close> is truncated towards zero. C++ leaves the conversion of NaN, of an infinity
  and of a number outside the integer range undefined; the model gives them the value
  that x86-64 produces, \<open>- 2 ^ 63\<close>.
\<close>

definition double_of_int :: "int \<Rightarrow> double" where
  "double_of_int i = round_double (of_int i)"

fun int64_of_double :: "double \<Rightarrow> int" where
  "int64_of_double (Finite x) =
     (let t = (if 0 \<le> x then \<lfloor>x\<rfloor> else \<lceil>x\<rceil>)
      in if - (2 ^ 63) \<le> t \<and> t < 2 ^ 63 then t else - (2 ^ 63))"
| "int64_of_double d = - (2 ^ 63)"

subsection \<open>The host: joints, model, SDF element, node\<close>

text \<open>A joint pointer is the address of a joint object owned by the physics engine.\<close>

type_synonym joint_ptr = nat

text \<open>
  What the plugin reads from a joint: \<^verbatim>\<open>Position(0)\<close> and \<^verbatim>\<open>GetEffortLimit(0)\<close>.
\<close>

record joint =
  Position :: double
  GetEffortLimit :: double

text \<open>The joints of the simulated world, by address. The host owns and updates them.\<close>

type_synonym joints = "joint_ptr \<Rightarrow> joint"

text \<open>
  \<^verbatim>\<open>physics::Model\<close>: \<^verbatim>\<open>GetJoint(name)\<close> is a lookup that yields a null pointer for
  an unknown name; \<^verbatim>\<open>GetWorld()->Physics()->GetMaxStepSize()\<close> is the step size.
\<close>

record Model =
  GetJoint :: "string \<rightharpoonup> joint_ptr"
  GetMaxStepSize :: double

text \<open>
  An SDF element's value, as the two typed reads the plugin uses:
  \<^verbatim>\<open>Get<std::string>()\<close> and \<^verbatim>\<open>Get<double>()\<close>.
\<close>

record sdf_value =
  Get_string :: string
  Get_double :: double

text \<open>
  The plugin's SDF element: its children by name. \<^verbatim>\<open>HasElement(k)\<close> is
  \<open>sdf k \<noteq> None\<close>, and \<^verbatim>\<open>GetElement(k)\<close>, which the plugin calls only after
  \<^verbatim>\<open>HasElement(k)\<close>, is the child itself.
\<close>

type_synonym sdf_element = "string \<rightharpoonup> sdf_value"

definition HasElement :: "sdf_element \<Rightarrow> string \<Rightarrow> bool" where
  "HasElement sdf k = (sdf k \<noteq> None)"

text \<open>
  The ROS side: whether \<^verbatim>\<open>rclcpp::ok()\<close> holds, and the parameter values the node was
  started with. The node handle \<^verbatim>\<open>model_nh_\<close> is used inside \<^verbatim>\<open>Load\<close> only (logger and
  parameters), so the model passes the node to \<open>Load\<close> and keeps no field for it.
\<close>

record Node =
  rclcpp_ok :: bool
  parameter_overrides :: "string \<rightharpoonup> double"

text \<open>
  \<^verbatim>\<open>declare_parameter<double>(name, default_value)\<close> on a node that has not declared
  \<open>name\<close> yet: the value the node was started with, else the default.
\<close>

definition declare_parameter :: "Node \<Rightarrow> string \<Rightarrow> double \<Rightarrow> double" where
  "declare_parameter node name default_value =
     (case parameter_overrides node name of
        None \<Rightarrow> default_value
      | Some v \<Rightarrow> v)"

text \<open>
  \<^verbatim>\<open>rclcpp::Rate\<close>: built from a frequency in Hz, it stores the period
  \<^verbatim>\<open>duration_cast<nanoseconds>(duration<double>(1.0 / rate))\<close>, which multiplies the
  seconds by \<^verbatim>\<open>1e9\<close> in \<^verbatim>\<open>double\<close> and converts the product to a 64-bit integer;
  \<^verbatim>\<open>period().count()\<close> reads that number of nanoseconds.
\<close>

record Rate =
  period_count :: int

definition duration_cast_nanoseconds :: "double \<Rightarrow> int" where
  "duration_cast_nanoseconds seconds = int64_of_double (fmul seconds (Finite 1000000000))"

definition Rate_make_shared :: "double \<Rightarrow> Rate" where
  "Rate_make_shared rate =
     \<lparr>period_count = duration_cast_nanoseconds (fdiv (Finite 1) rate)\<rparr>"

subsection \<open>Effects\<close>

datatype severity = INFO | ERROR | FATAL

text \<open>The log messages of \<^verbatim>\<open>Load\<close>, with the values they print.\<close>

datatype message =
    Starting
  | ParentModelNull
  | RosNotInitialized
  | NoJointElement
  | NoMimicJointElement
  | NoJointNamed string
  | NoMimicJointNamed string
  | Loaded string string double double double double

text \<open>
  The calls that reach outside the plugin: a log line, and the three writes to a joint,
  \<^verbatim>\<open>SetParam(key, index, value)\<close>, \<^verbatim>\<open>SetForce(index, effort)\<close> and
  \<^verbatim>\<open>SetPosition(index, position, preserveWorldVelocity)\<close>, each with the joint it is
  called on.
\<close>

datatype effect =
    Log severity message
  | SetParam joint_ptr string nat double
  | SetForce joint_ptr nat double
  | SetPosition joint_ptr nat double bool

fun is_diagnostic :: "effect \<Rightarrow> bool" where
  "is_diagnostic (Log ERROR m) = True"
| "is_diagnostic (Log FATAL m) = True"
| "is_diagnostic e = False"

fun is_joint_write :: "effect \<Rightarrow> bool" where
  "is_joint_write (Log s m) = False"
| "is_joint_write e = True"

fun is_SetParam :: "effect \<Rightarrow> bool" where
  "is_SetParam (SetParam j k i v) = True"
| "is_SetParam e = False"

fun is_SetForce :: "effect \<Rightarrow> bool" where
  "is_SetForce (SetForce j i v) = True"
| "is_SetForce e = False"

subsection \<open>The plugin object\<close>

text \<open>
  The data members of \<^verbatim>\<open>GazeboMimicJointPlugin\<close>, as \<^verbatim>\<open>Load\<close> and \<^verbatim>\<open>OnUpdate\<close> use them.
  Smart pointers are options (\<open>None\<close> is the null pointer). \<open>'pid\<close> is the state of a
  \<^verbatim>\<open>control_toolbox::Pid\<close> object, a library outside this repository: the plugin is
  modelled for any such controller. \<open>update_connection_'\<close> tells whether the plugin is
  subscribed to the world update event.
\<close>

record 'pid plugin =
  model_' :: "Model option"
  joint_name_' :: string
  mimic_joint_name_' :: string
  has_pid_' :: bool
  pid_' :: "'pid option"
  multiplier_' :: double
  offset_' :: double
  sensitiveness_' :: double
  max_effort_' :: double
  joint_' :: "joint_ptr option"
  mimic_joint_' :: "joint_ptr option"
  loop_rate_' :: "Rate option"
  update_connection_' :: bool

text \<open>
  The constructor resets \<open>joint_'\<close> and \<open>mimic_joint_'\<close>; the other smart pointers are
  null by default construction and the strings are empty. The scalar members are not
  initialised: they keep what the storage \<open>raw\<close> held.
\<close>

definition GazeboMimicJointPlugin :: "'pid plugin \<Rightarrow> 'pid plugin" where
  "GazeboMimicJointPlugin raw =
     raw\<lparr>model_' := None, joint_name_' := [], mimic_joint_name_' := [], pid_' := None,
         joint_' := None, mimic_joint_' := None, loop_rate_' := None,
         update_connection_' := False\<rparr>"

subsection \<open>Load\<close>

text \<open>
  \<^verbatim>\<open>Load(parent, sdf)\<close>. \<open>Pid\<close> is the constructor
  \<^verbatim>\<open>control_toolbox::Pid(p, i, d, i_max, i_min)\<close>. Every \<^verbatim>\<open>return\<close> of the source is a
  branch that yields the plugin as it is at that point, with the effects so far. The
  literals \<^verbatim>\<open>0.1\<close> and \<^verbatim>\<open>0.2\<close> are the nearest \<^verbatim>\<open>double\<close>s.
\<close>

definition Load ::
  "(double \<Rightarrow> double \<Rightarrow> double \<Rightarrow> double \<Rightarrow> double \<Rightarrow> 'pid) \<Rightarrow> 'pid plugin \<Rightarrow> Model option \<Rightarrow>
   sdf_element \<Rightarrow> Node \<Rightarrow> joints \<Rightarrow> 'pid plugin \<times> effect list" where
  "Load Pid this parent sdf model_nh world =
    (let this = this\<lparr>model_' := parent\<rparr>;
         out = [Log INFO Starting]
     in case parent of
       None \<Rightarrow> (this, out @ [Log ERROR ParentModelNull])
     | Some model \<Rightarrow>
       if \<not> rclcpp_ok model_nh then (this, out @ [Log FATAL RosNotInitialized])
       else case sdf ''joint'' of
         None \<Rightarrow> (this, out @ [Log ERROR NoJointElement])
       | Some joint_element \<Rightarrow>
         let this = this\<lparr>joint_name_' := Get_string joint_element\<rparr>
         in case sdf ''mimicJoint'' of
           None \<Rightarrow> (this, out @ [Log ERROR NoMimicJointElement])
         | Some mimic_element \<Rightarrow>
           let this = this\<lparr>mimic_joint_name_' := Get_string mimic_element\<rparr>;
               this = this\<lparr>has_pid_' := HasElement sdf ''hasPID''\<rparr>;
               this =
                 (if has_pid_' this then
                    let prefix = ''gains.'' @ joint_name_' this;
                        k_p = declare_parameter model_nh (prefix @ ''.p'') (Finite 10);
                        k_i = declare_parameter model_nh (prefix @ ''.i'') (round_double 0.1);
                        k_d = declare_parameter model_nh (prefix @ ''.d'') (Finite 0);
                        i_clamp = declare_parameter model_nh (prefix @ ''.i_clamp'')
                                    (round_double 0.2)
                    in this\<lparr>pid_' := Some (Pid k_p k_i k_d i_clamp (fneg i_clamp))\<rparr>
                  else this);
               this = this\<lparr>multiplier_' :=
                 (case sdf ''multiplier'' of None \<Rightarrow> Finite 1 | Some e \<Rightarrow> Get_double e)\<rparr>;
               this = this\<lparr>offset_' :=
                 (case sdf ''offset'' of None \<Rightarrow> Finite 0 | Some e \<Rightarrow> Get_double e)\<rparr>;
               this = this\<lparr>sensitiveness_' :=
                 (case sdf ''sensitiveness'' of None \<Rightarrow> Finite 0 | Some e \<Rightarrow> Get_double e)\<rparr>;
               this = this\<lparr>joint_' := GetJoint model (joint_name_' this)\<rparr>
           in case joint_' this of
             None \<Rightarrow> (this, out @ [Log ERROR (NoJointNamed (joint_name_' this))])
           | Some j \<Rightarrow>
             let this = this\<lparr>mimic_joint_' := GetJoint model (mimic_joint_name_' this)\<rparr>
             in case mimic_joint_' this of
               None \<Rightarrow> (this, out @ [Log ERROR (NoMimicJointNamed (mimic_joint_name_' this))])
             | Some m \<Rightarrow>
               let this = this\<lparr>max_effort_' :=
                     (case sdf ''maxEffort'' of
                        Some e \<Rightarrow> Get_double e
                      | None \<Rightarrow> GetEffortLimit (world m))\<rparr>;
                   out = (if \<not> has_pid_' this
                          then out @ [SetParam m ''fmax'' 0 (max_effort_' this)]
                          else out);
                   this = this\<lparr>loop_rate_' :=
                     Some (Rate_make_shared (fdiv (Finite 1) (GetMaxStepSize model)))\<rparr>;
                   this = this\<lparr>update_connection_' := True\<rparr>
               in (this, out @ [Log INFO (Loaded (joint_name_' this) (mimic_joint_name_' this)
                     (multiplier_' this) (offset_' this) (max_effort_' this)
                     (sensitiveness_' this))]))"

subsection \<open>OnUpdate\<close>

text \<open>
  What stops a call that the source does not guard: dereferencing a null pointer.
  \<^verbatim>\<open>OnUpdate\<close> checks none of its pointers.
\<close>

datatype error = NullPointer

text \<open>
  \<^verbatim>\<open>OnUpdate()\<close>. \<open>computeCommand\<close> is \<^verbatim>\<open>control_toolbox::Pid::computeCommand(error, dt)\<close>:
  from the controller's state, the error and the time step (the period's count of
  nanoseconds, as the plugin passes it) it gives the command and the controller's new
  state. \<open>world\<close> holds the joints as they are at this tick.
\<close>

definition OnUpdate ::
  "('pid \<Rightarrow> double \<Rightarrow> int \<Rightarrow> double \<times> 'pid) \<Rightarrow> 'pid plugin \<Rightarrow> joints \<Rightarrow>
   error + 'pid plugin \<times> effect list" where
  "OnUpdate computeCommand this world =
    (case joint_' this of
       None \<Rightarrow> Inl NullPointer
     | Some j \<Rightarrow>
       let angle = fadd (fmul (Position (world j)) (multiplier_' this)) (offset_' this)
       in case mimic_joint_' this of
         None \<Rightarrow> Inl NullPointer
       | Some m \<Rightarrow>
         let a = Position (world m)
         in if dge (fabs (fsub angle a)) (sensitiveness_' this) then
              if has_pid_' this then
                let error = fsub angle a
                in case pid_' this of
                  None \<Rightarrow> Inl NullPointer
                | Some pid \<Rightarrow>
                  case loop_rate_' this of
                    None \<Rightarrow> Inl NullPointer
                  | Some rate \<Rightarrow>
                    let (command, pid') = computeCommand pid error (period_count rate);
                        effort = clamp command (fneg (max_effort_' this)) (max_effort_' this)
                    in Inr (this\<lparr>pid_' := Some pid'\<rparr>, [SetForce m 0 effort])
              else Inr (this, [SetPosition m 0 angle True])
            else Inr (this, []))"

subsection \<open>The host's update loop\<close>

text \<open>
  The host broadcasts the world update event once per simulation step, with an
  \<^verbatim>\<open>UpdateInfo\<close> that carries the simulation time (here in nanoseconds). The callback that
  \<^verbatim>\<open>Load\<close> binds is \<^verbatim>\<open>boost::bind(&GazeboMimicJointPlugin::OnUpdate, this)\<close>: it takes no
  argument from the event, so the \<^verbatim>\<open>UpdateInfo\<close> is dropped. A plugin that is not
  subscribed is not called.
\<close>

record UpdateInfo =
  simTime :: int

definition WorldUpdateBegin ::
  "('pid \<Rightarrow> double \<Rightarrow> int \<Rightarrow> double \<times> 'pid) \<Rightarrow> 'pid plugin \<Rightarrow> UpdateInfo \<times> joints \<Rightarrow>
   error + 'pid plugin \<times> effect list" where
  "WorldUpdateBegin computeCommand this tick =
     (if update_connection_' this then OnUpdate computeCommand this (snd tick)
      else Inr (this, []))"

text \<open>
  A run of the simulation: one event per step, each with the joints as the physics
  engine has them at that step. A crash of the callback ends the run.
\<close>

fun simulate ::
  "('pid \<Rightarrow> double \<Rightarrow> int \<Rightarrow> double \<times> 'pid) \<Rightarrow> 'pid plugin \<Rightarrow> (UpdateInfo \<times> joints) list \<Rightarrow>
   error + 'pid plugin \<times> effect list" where
  "simulate computeCommand this [] = Inr (this, [])"
| "simulate computeCommand this (tick # ticks) =
     (case WorldUpdateBegin computeCommand this tick of
        Inl e \<Rightarrow> Inl e
      | Inr (this', out) \<Rightarrow>
        (case simulate computeCommand this' ticks of
           Inl e \<Rightarrow> Inl e
         | Inr (this'', out') \<Rightarrow> Inr (this'', out @ out')))"

subsection \<open>A PID controller\<close>

text \<open>
  Modelled from the spec: \<^verbatim>\<open>control_toolbox::Pid\<close>, the controller class the plugin
  constructs and calls, whose code is not under src/. The spec gives its state,
  \<open>{kp, ki, kd, i_clamp, integral_accumulator, previous_error}\<close>, and its law:
  \<open>command = kp*error + ki*integral(error*dt, clamped to +-i_clamp)
  + kd*(error - previous_error)/dt\<close>, where the integral accumulates and is clamped at
  every call, and the derivative uses the error of the preceding call. The plugin
  passes \<open>dt\<close> as a count of nanoseconds. The theorems about \<open>Load\<close> and \<open>OnUpdate\<close> hold
  for every controller; this one is the instance they are run with.
\<close>

record Pid_state =
  kp :: double
  ki :: double
  kd :: double
  i_max :: double
  i_min :: double
  integral_accumulator :: double
  previous_error :: double

definition control_toolbox_Pid ::
  "double \<Rightarrow> double \<Rightarrow> double \<Rightarrow> double \<Rightarrow> double \<Rightarrow> Pid_state" where
  "control_toolbox_Pid p i d imax imin =
     \<lparr>kp = p, ki = i, kd = d, i_max = imax, i_min = imin,
      integral_accumulator = Finite 0, previous_error = Finite 0\<rparr>"

definition control_toolbox_computeCommand ::
  "Pid_state \<Rightarrow> double \<Rightarrow> int \<Rightarrow> double \<times> Pid_state" where
  "control_toolbox_computeCommand pid error dt_ns =
     (let dt = fdiv (double_of_int dt_ns) (Finite 1000000000);
          integral = clamp (fadd (integral_accumulator pid) (fmul error dt))
                       (i_min pid) (i_max pid);
          command = fadd (fadd (fmul (kp pid) error) (fmul (ki pid) integral))
                      (fdiv (fmul (kd pid) (fsub error (previous_error pid))) dt)
      in (command, pid\<lparr>integral_accumulator := integral, previous_error := error\<rparr>))"

text \<open>
  A controller that only records the arguments of every call, in order, and commands
  nothing: it shows what the plugin feeds to \<^verbatim>\<open>computeCommand\<close>.
\<close>

definition recording_Pid ::
  "double \<Rightarrow> double \<Rightarrow> double \<Rightarrow> double \<Rightarrow> double \<Rightarrow> (double \<times> int) list" where
  "recording_Pid p i d imax imin = []"

definition recording_computeCommand ::
  "(double \<times> int) list \<Rightarrow> double \<Rightarrow> int \<Rightarrow> double \<times> (double \<times> int) list" where
  "recording_computeCommand calls error dt = (Finite 0, calls @ [(error, dt)])"

subsection \<open>A gripper: one master joint, one mimic joint\<close>

text \<open>
  The concrete host the theorems below are instantiated at: a model with the joints
  \<open>drive_joint\<close> (at address 0) and \<open>left_finger_joint\<close> (at address 1), a step size of one
  millisecond, a node without parameter values, and a plugin element that names the
  two joints with multiplier 2 and offset -0.5.
\<close>

definition raw_storage :: "'pid plugin" where
  "raw_storage =
     \<lparr>model_' = None, joint_name_' = [], mimic_joint_name_' = [], has_pid_' = False,
      pid_' = None, multiplier_' = Finite 0, offset_' = Finite 0, sensitiveness_' = Finite 0,
      max_effort_' = Finite 0, joint_' = None, mimic_joint_' = None, loop_rate_' = None,
      update_connection_' = False\<rparr>"

definition gripper_model :: Model where
  "gripper_model =
     \<lparr>GetJoint = [''drive_joint'' \<mapsto> 0, ''left_finger_joint'' \<mapsto> 1],
      GetMaxStepSize = round_double 0.001\<rparr>"

definition gripper_node :: Node where
  "gripper_node = \<lparr>rclcpp_ok = True, parameter_overrides = Map.empty\<rparr>"

definition text_value :: "string \<Rightarrow> sdf_value" where
  "text_value s = \<lparr>Get_string = s, Get_double = Finite 0\<rparr>"

definition double_value :: "double \<Rightarrow> sdf_value" where
  "double_value d = \<lparr>Get_string = [], Get_double = d\<rparr>"

definition gripper_sdf :: sdf_element where
  "gripper_sdf =
     [''joint'' \<mapsto> text_value ''drive_joint'',
      ''mimicJoint'' \<mapsto> text_value ''left_finger_joint'',
      ''multiplier'' \<mapsto> double_value (Finite 2),
      ''offset'' \<mapsto> double_value (Finite (- 0.5))]"

text \<open>The two joints at given angles, each with an effort limit of 50.\<close>

definition gripper_world :: "double \<Rightarrow> double \<Rightarrow> joints" where
  "gripper_world master_angle mimic_angle =
     (\<lambda>p. \<lparr>Position = (if p = 0 then master_angle else mimic_angle),
           GetEffortLimit = Finite 50\<rparr>)"

text \<open>The plugin object after construction and \<open>Load\<close> on the gripper, for a given element.\<close>

definition load_gripper ::
  "(double \<Rightarrow> double \<Rightarrow> double \<Rightarrow> double \<Rightarrow> double \<Rightarrow> 'pid) \<Rightarrow> sdf_element \<Rightarrow> 'pid plugin" where
  "load_gripper Pid sdf =
     fst (Load Pid (GazeboMimicJointPlugin raw_storage) (Some gripper_model) sdf gripper_node
            (gripper_world (Finite 0) (Finite 0)))"

text \<open>Direct drive, without and with a deadband of 0.1.\<close>

definition direct_gripper :: "Pid_state plugin" where
  "direct_gripper = load_gripper control_toolbox_Pid gripper_sdf"

definition sensitive_gripper :: "Pid_state plugin" where
  "sensitive_gripper =
     load_gripper control_toolbox_Pid
       (gripper_sdf(''sensitiveness'' \<mapsto> double_value (round_double 0.1)))"

text \<open>
  PID mode: with the joint's effort limit, with \<open>maxEffort\<close> set to -1, and with the
  recording controller.
\<close>

definition pid_gripper :: "Pid_state plugin" where
  "pid_gripper = load_gripper control_toolbox_Pid (gripper_sdf(''hasPID'' \<mapsto> text_value []))"

definition negative_effort_gripper :: "Pid_state plugin" where
  "negative_effort_gripper =
     load_gripper control_toolbox_Pid
       (gripper_sdf(''hasPID'' \<mapsto> text_value [], ''maxEffort'' \<mapsto> double_value (Finite (- 1))))"

definition recording_gripper :: "(double \<times> int) list plugin" where
  "recording_gripper = load_gripper recording_Pid (gripper_sdf(''hasPID'' \<mapsto> text_value []))"

text \<open>An element that names \<open>drive_joint\<close> as the master and as the mimic joint.\<close>

definition same_joint_sdf :: sdf_element where
  "same_joint_sdf =
     [''joint'' \<mapsto> text_value ''drive_joint'', ''mimicJoint'' \<mapsto> text_value ''drive_joint'']"

subsection \<open>Notions the statements use\<close>

text \<open>The value \<open>Load\<close> gives \<open>max_effort_'\<close>, once the mimic joint \<open>m\<close> is resolved.\<close>

definition configured_max_effort :: "sdf_element \<Rightarrow> joints \<Rightarrow> joint_ptr \<Rightarrow> double" where
  "configured_max_effort sdf world m =
     (case sdf ''maxEffort'' of Some e \<Rightarrow> Get_double e | None \<Rightarrow> GetEffortLimit (world m))"

text \<open>
  What \<open>OnUpdate\<close> dereferences: the two joint pointers and, in PID mode, the controller
  and the rate.
\<close>

definition ready :: "'pid plugin \<Rightarrow> bool" where
  "ready this \<longleftrightarrow>
     joint_' this \<noteq> None \<and> mimic_joint_' this \<noteq> None \<and>
     (has_pid_' this \<longrightarrow> pid_' this \<noteq> None \<and> loop_rate_' this \<noteq> None)"

text \<open>
  A node whose parameters state the default gains explicitly, under the names
  \<open>prefix.p\<close>, \<open>prefix.i\<close>, \<open>prefix.d\<close> and \<open>prefix.i_clamp\<close>.
\<close>

definition explicit_default_gains :: "string \<Rightarrow> Node \<Rightarrow> Node" where
  "explicit_default_gains prefix node =
     node\<lparr>parameter_overrides := (parameter_overrides node)
       (prefix @ ''.p'' \<mapsto> Finite 10, prefix @ ''.i'' \<mapsto> round_double 0.1,
        prefix @ ''.d'' \<mapsto> Finite 0, prefix @ ''.i_clamp'' \<mapsto> round_double 0.2)\<rparr>"

text \<open>
  The spec's tick input has the elapsed time since the previous tick. In the host's
  terms: the simulation time of each event minus that of the event before it (\<open>t0\<close>
  for the first one), in nanoseconds.
\<close>

fun elapsed_since_previous :: "int \<Rightarrow> (UpdateInfo \<times> joints) list \<Rightarrow> int list" where
  "elapsed_since_previous t0 [] = []"
| "elapsed_since_previous t0 (tick # ticks) =
     (simTime (fst tick) - t0) # elapsed_since_previous (simTime (fst tick)) ticks"

section \<open>Properties\<close>

subsection \<open>Binary64 arithmetic\<close>

text \<open>What evaluates a closed arithmetic term.\<close>

lemmas binary64 =
  round_double_def ilog2_def ilog2_up.simps ilog2_down.simps pow2_def round_half_even_def
  fsub_def fmul_def fdiv_def dge_def std_min_def std_max_def clamp_def double_of_int_def
  duration_cast_nanoseconds_def Rate_make_shared_def Let_def

text \<open>Rounding at work: \<open>0.1\<close>, \<open>0.1 * 3\<close>, \<open>1 - 2 ^ -60\<close>, an overflow.\<close>

lemma round_double_tenth: "round_double 0.1 = Finite (3602879701896397 / 2 ^ 55)"
  by (simp add: binary64)

lemma fmul_tenth_three:
  "fmul (round_double 0.1) (Finite 3) = Finite (1351079888211149 / 2 ^ 52)"
  by (simp add: binary64)

lemma fsub_absorbs: "fsub (Finite 1) (Finite (1 / 2 ^ 60)) = Finite 1"
  by (simp add: binary64)

lemma fmul_overflows: "fmul (Finite (2 ^ 1023)) (Finite 2) = PInf"
  by (simp add: binary64)

text \<open>The period of a rate made from a step size of 0.0067 s is 6699999 ns.\<close>

lemma Rate_period_rounds:
  "period_count (Rate_make_shared (fdiv (Finite 1) (round_double 0.0067))) = 6699999"
  by (simp add: binary64)

lemma gripper_period:
  "Rate_make_shared (fdiv (Finite 1) (GetMaxStepSize gripper_model)) = \<lparr>period_count = 1000000\<rparr>"
  by (simp add: binary64 gripper_model_def)

text \<open>Order facts: \<^verbatim>\<open><\<close> excludes \<^verbatim>\<open>>=\<close>, and what the clamp gives.\<close>

lemma dless_not_dge: "dless a b \<Longrightarrow> \<not> dge a b"
  by (cases a; cases b) (simp_all add: dge_def)

lemma clamp_value:
  assumes "c \<noteq> NaN" and "dle (Finite 0) m"
  shows "clamp c (fneg m) m = (if dless m c then m else if dless c (fneg m) then fneg m else c)"
  using assms by (cases c; cases m) (simp_all add: clamp_def std_min_def std_max_def)

lemma clamp_within:
  assumes "c \<noteq> NaN" and "dle (Finite 0) m"
  shows "dle (fneg m) (clamp c (fneg m) m) \<and> dle (clamp c (fneg m) m) m"
  using assms by (cases c; cases m) (simp_all add: clamp_def std_min_def std_max_def)

lemma clamp_NaN: "clamp NaN mn mx = NaN"
  by (cases mn; cases mx) (simp_all add: clamp_def std_min_def std_max_def)

subsection \<open>Load, path by path\<close>

lemma Load_null_model:
  "Load Pid this None sdf node world =
     (this\<lparr>model_' := None\<rparr>, [Log INFO Starting, Log ERROR ParentModelNull])"
  by (simp add: Load_def)

lemma Load_ros_not_ok:
  assumes "\<not> rclcpp_ok node"
  shows "Load Pid this (Some model) sdf node world =
     (this\<lparr>model_' := Some model\<rparr>, [Log INFO Starting, Log FATAL RosNotInitialized])"
  using assms by (simp add: Load_def)

lemma Load_no_joint:
  assumes "rclcpp_ok node" and "sdf ''joint'' = None"
  shows "Load Pid this (Some model) sdf node world =
     (this\<lparr>model_' := Some model\<rparr>, [Log INFO Starting, Log ERROR NoJointElement])"
  using assms by (simp add: Load_def)

lemma Load_no_mimicJoint:
  assumes "rclcpp_ok node" and "sdf ''joint'' = Some je" and "sdf ''mimicJoint'' = None"
  shows "Load Pid this (Some model) sdf node world =
     (this\<lparr>model_' := Some model, joint_name_' := Get_string je\<rparr>,
      [Log INFO Starting, Log ERROR NoMimicJointElement])"
  using assms by (simp add: Load_def)

lemma Load_unknown_joint:
  assumes "rclcpp_ok node" and "sdf ''joint'' = Some je" and "sdf ''mimicJoint'' = Some me"
    and "GetJoint model (Get_string je) = None"
  shows "update_connection_' (fst (Load Pid this (Some model) sdf node world))
           = update_connection_' this"
    and "snd (Load Pid this (Some model) sdf node world) =
           [Log INFO Starting, Log ERROR (NoJointNamed (Get_string je))]"
  using assms by (simp_all add: Load_def Let_def)

lemma Load_unknown_mimic_joint:
  assumes "rclcpp_ok node" and "sdf ''joint'' = Some je" and "sdf ''mimicJoint'' = Some me"
    and "GetJoint model (Get_string je) = Some j" and "GetJoint model (Get_string me) = None"
  shows "update_connection_' (fst (Load Pid this (Some model) sdf node world))
           = update_connection_' this"
    and "snd (Load Pid this (Some model) sdf node world) =
           [Log INFO Starting, Log ERROR (NoMimicJointNamed (Get_string me))]"
  using assms by (simp_all add: Load_def Let_def)

text \<open>The one path that subscribes the plugin: every member is assigned.\<close>

lemma Load_armed:
  assumes "rclcpp_ok node" and "sdf ''joint'' = Some je" and "sdf ''mimicJoint'' = Some me"
    and "GetJoint model (Get_string je) = Some j" and "GetJoint model (Get_string me) = Some m"
  shows "Load Pid this (Some model) sdf node world =
    (this\<lparr>model_' := Some model, joint_name_' := Get_string je,
          mimic_joint_name_' := Get_string me, has_pid_' := HasElement sdf ''hasPID'',
          pid_' := (if HasElement sdf ''hasPID''
                    then Some (Pid (declare_parameter node (''gains.'' @ Get_string je @ ''.p'') (Finite 10))
                                   (declare_parameter node (''gains.'' @ Get_string je @ ''.i'') (round_double 0.1))
                                   (declare_parameter node (''gains.'' @ Get_string je @ ''.d'') (Finite 0))
                                   (declare_parameter node (''gains.'' @ Get_string je @ ''.i_clamp'')
                                      (round_double 0.2))
                                   (fneg (declare_parameter node (''gains.'' @ Get_string je @ ''.i_clamp'')
                                      (round_double 0.2))))
                    else pid_' this),
          multiplier_' := (case sdf ''multiplier'' of None \<Rightarrow> Finite 1 | Some e \<Rightarrow> Get_double e),
          offset_' := (case sdf ''offset'' of None \<Rightarrow> Finite 0 | Some e \<Rightarrow> Get_double e),
          sensitiveness_' := (case sdf ''sensitiveness'' of None \<Rightarrow> Finite 0 | Some e \<Rightarrow> Get_double e),
          max_effort_' := configured_max_effort sdf world m,
          joint_' := Some j, mimic_joint_' := Some m,
          loop_rate_' := Some (Rate_make_shared (fdiv (Finite 1) (GetMaxStepSize model))),
          update_connection_' := True\<rparr>,
     [Log INFO Starting]
     @ (if HasElement sdf ''hasPID'' then []
        else [SetParam m ''fmax'' 0 (configured_max_effort sdf world m)])
     @ [Log INFO (Loaded (Get_string je) (Get_string me)
          (case sdf ''multiplier'' of None \<Rightarrow> Finite 1 | Some e \<Rightarrow> Get_double e)
          (case sdf ''offset'' of None \<Rightarrow> Finite 0 | Some e \<Rightarrow> Get_double e)
          (configured_max_effort sdf world m)
          (case sdf ''sensitiveness'' of None \<Rightarrow> Finite 0 | Some e \<Rightarrow> Get_double e))])"
  using assms by (simp add: Load_def Let_def configured_max_effort_def)

lemma constructed_not_subscribed: "\<not> update_connection_' (GazeboMimicJointPlugin raw)"
  by (simp add: GazeboMimicJointPlugin_def)

text \<open>
  When \<open>Load\<close> subscribes a freshly constructed plugin: the model is there, ROS is up, and
  both joint names are configured and resolve.
\<close>

lemma armed_cases:
  "update_connection_' (fst (Load Pid (GazeboMimicJointPlugin raw) parent sdf node world)) \<longleftrightarrow>
     (\<exists>model je me j m. parent = Some model \<and> rclcpp_ok node \<and>
        sdf ''joint'' = Some je \<and> sdf ''mimicJoint'' = Some me \<and>
        GetJoint model (Get_string je) = Some j \<and> GetJoint model (Get_string me) = Some m)"
proof (cases parent)
  case None
  then show ?thesis by (simp add: Load_null_model constructed_not_subscribed)
next
  case model: (Some model)
  show ?thesis
  proof (cases "rclcpp_ok node")
    case False
    with model show ?thesis by (simp add: Load_ros_not_ok constructed_not_subscribed)
  next
    case ok: True
    show ?thesis
    proof (cases "sdf ''joint''")
      case None
      with model ok show ?thesis by (simp add: Load_no_joint constructed_not_subscribed)
    next
      case je: (Some je)
      show ?thesis
      proof (cases "sdf ''mimicJoint''")
        case None
        with model ok je show ?thesis
          by (simp add: Load_no_mimicJoint constructed_not_subscribed)
      next
        case me: (Some me)
        show ?thesis
        proof (cases "GetJoint model (Get_string je)")
          case None
          with model ok je me show ?thesis
            by (simp add: Load_unknown_joint constructed_not_subscribed)
        next
          case j: (Some j)
          show ?thesis
          proof (cases "GetJoint model (Get_string me)")
            case None
            with model ok je me j show ?thesis
              by (simp add: Load_unknown_mimic_joint constructed_not_subscribed)
          next
            case (Some m)
            with model ok je me j show ?thesis by (simp add: Load_armed)
          qed
        qed
      qed
    qed
  qed
qed

subsection \<open>OnUpdate and the update loop\<close>

text \<open>A tick changes no member but the controller's state.\<close>

lemma OnUpdate_frame:
  assumes "OnUpdate cc this world = Inr (this', out)"
  shows "this' = this\<lparr>pid_' := pid_' this'\<rparr>"
  using assms
  by (auto simp: OnUpdate_def Let_def split: option.splits if_splits prod.splits)

lemma WorldUpdateBegin_cases:
  assumes "WorldUpdateBegin cc this tick = Inr (this', out)"
  shows "(update_connection_' this \<and> OnUpdate cc this (snd tick) = Inr (this', out)) \<or>
         (\<not> update_connection_' this \<and> this' = this \<and> out = [])"
  using assms by (auto simp: WorldUpdateBegin_def split: if_splits)

lemma WorldUpdateBegin_frame:
  assumes "WorldUpdateBegin cc this tick = Inr (this', out)"
  shows "this' = this\<lparr>pid_' := pid_' this'\<rparr>"
  using WorldUpdateBegin_cases[OF assms] by (auto dest: OnUpdate_frame)

lemma simulate_Cons_cases:
  assumes "simulate cc this (tick # ticks) = Inr (this', out)"
  obtains mid out1 out2 where "WorldUpdateBegin cc this tick = Inr (mid, out1)"
    and "simulate cc mid ticks = Inr (this', out2)" and "out = out1 @ out2"
  using assms by (auto split: sum.splits prod.splits)

lemma simulate_not_subscribed:
  "\<not> update_connection_' this \<Longrightarrow> simulate cc this ticks = Inr (this, [])"
  by (induction ticks) (simp_all add: WorldUpdateBegin_def)

text \<open>
  Every effect of a tick is a write to the mimic joint: a clamped force in PID mode, a
  position otherwise.
\<close>

lemma OnUpdate_effect:
  assumes "OnUpdate cc this world = Inr (this', out)" and "e \<in> set out"
  shows "\<exists>m. mimic_joint_' this = Some m \<and>
     ((\<exists>pid error dt. has_pid_' this \<and>
         e = SetForce m 0 (clamp (fst (cc pid error dt))
                             (fneg (max_effort_' this)) (max_effort_' this))) \<or>
      (\<exists>angle. \<not> has_pid_' this \<and> e = SetPosition m 0 angle True))"
  using assms
  by (auto simp: OnUpdate_def Let_def split: option.splits if_splits prod.splits)
     (metis fst_conv)

lemma simulate_effect:
  assumes "simulate cc this ticks = Inr (this', out)" and "e \<in> set out"
  shows "\<exists>m. mimic_joint_' this = Some m \<and>
     ((\<exists>pid error dt. has_pid_' this \<and>
         e = SetForce m 0 (clamp (fst (cc pid error dt))
                             (fneg (max_effort_' this)) (max_effort_' this))) \<or>
      (\<exists>angle. \<not> has_pid_' this \<and> e = SetPosition m 0 angle True))"
  using assms
proof (induction ticks arbitrary: this out)
  case Nil
  then show ?case by simp
next
  case (Cons tick ticks)
  from Cons.prems(1) obtain mid out1 out2 where
    step: "WorldUpdateBegin cc this tick = Inr (mid, out1)" and
    rest: "simulate cc mid ticks = Inr (this', out2)" and
    out: "out = out1 @ out2"
    by (rule simulate_Cons_cases)
  from WorldUpdateBegin_frame[OF step] have mid: "mid = this\<lparr>pid_' := pid_' mid\<rparr>" .
  have same: "mimic_joint_' mid = mimic_joint_' this" "has_pid_' mid = has_pid_' this"
    "max_effort_' mid = max_effort_' this"
    by (subst mid, simp)+
  from Cons.prems(2) out consider "e \<in> set out1" | "e \<in> set out2" by auto
  then show ?case
  proof cases
    case 1
    with WorldUpdateBegin_cases[OF step]
    have "OnUpdate cc this (snd tick) = Inr (mid, out1)" by auto
    from OnUpdate_effect[OF this 1] show ?thesis .
  next
    case 2
    from Cons.IH[OF rest 2] show ?thesis by (simp add: same)
  qed
qed

lemma simulate_no_SetParam:
  assumes "simulate cc this ticks = Inr (this', out)"
  shows "filter is_SetParam out = []"
proof -
  have "\<not> is_SetParam e" if "e \<in> set out" for e
    using simulate_effect[OF assms that] by auto
  then show ?thesis by (simp add: filter_empty_conv)
qed

text \<open>
  A plugin that \<open>Load\<close> has armed never dereferences a null pointer: every run of the
  update loop returns.
\<close>

lemma OnUpdate_ready:
  assumes "ready this"
  shows "\<exists>this' out. OnUpdate cc this world = Inr (this', out) \<and> ready this'"
  using assms
  by (auto simp: ready_def OnUpdate_def Let_def split: prod.splits)

lemma simulate_ready:
  assumes "update_connection_' this \<longrightarrow> ready this"
  shows "\<exists>this' out. simulate cc this ticks = Inr (this', out)"
  using assms
proof (induction ticks arbitrary: this)
  case Nil
  show ?case by simp
next
  case (Cons tick ticks)
  show ?case
  proof (cases "update_connection_' this")
    case False
    from simulate_not_subscribed[OF this] show ?thesis by blast
  next
    case True
    with Cons.prems obtain mid out1 where
      step: "OnUpdate cc this (snd tick) = Inr (mid, out1)" and mid: "ready mid"
      using OnUpdate_ready by blast
    from Cons.IH[of mid] mid obtain this' out2 where
      "simulate cc mid ticks = Inr (this', out2)" by blast
    with step True show ?thesis by (simp add: WorldUpdateBegin_def)
  qed
qed

lemma Load_ready:
  assumes "Load Pid (GazeboMimicJointPlugin raw) parent sdf node world = (this, out)"
    and "update_connection_' this"
  shows "ready this"
proof -
  from assms
  have "update_connection_' (fst (Load Pid (GazeboMimicJointPlugin raw) parent sdf node world))"
    by simp
  then obtain model je me j m where *: "parent = Some model" "rclcpp_ok node"
      "sdf ''joint'' = Some je" "sdf ''mimicJoint'' = Some me"
      "GetJoint model (Get_string je) = Some j" "GetJoint model (Get_string me) = Some m"
    unfolding armed_cases by blast
  from assms(1)
  have "this = fst (Load Pid (GazeboMimicJointPlugin raw) parent sdf node world)"
    by simp
  with * show ?thesis by (simp add: Load_armed ready_def)
qed

lemma loaded_plugin_runs:
  assumes "Load Pid (GazeboMimicJointPlugin raw) parent sdf node world = (this, out)"
  shows "\<exists>this' out'. simulate cc this ticks = Inr (this', out')"
  using Load_ready[OF assms] by (intro simulate_ready) simp

subsection \<open>The gripper, loaded\<close>

lemma Load_gripper:
  assumes "sdf ''joint'' = Some (text_value ''drive_joint'')"
    and "sdf ''mimicJoint'' = Some (text_value ''left_finger_joint'')"
  shows "Load Pid (GazeboMimicJointPlugin raw_storage) (Some gripper_model) sdf gripper_node
           (gripper_world (Finite 0) (Finite 0)) =
     (\<lparr>model_' = Some gripper_model, joint_name_' = ''drive_joint'',
       mimic_joint_name_' = ''left_finger_joint'', has_pid_' = HasElement sdf ''hasPID'',
       pid_' = (if HasElement sdf ''hasPID''
                then Some (Pid (Finite 10) (round_double 0.1) (Finite 0) (round_double 0.2)
                             (fneg (round_double 0.2)))
                else None),
       multiplier_' = (case sdf ''multiplier'' of None \<Rightarrow> Finite 1 | Some e \<Rightarrow> Get_double e),
       offset_' = (case sdf ''offset'' of None \<Rightarrow> Finite 0 | Some e \<Rightarrow> Get_double e),
       sensitiveness_' =
         (case sdf ''sensitiveness'' of None \<Rightarrow> Finite 0 | Some e \<Rightarrow> Get_double e),
       max_effort_' = (case sdf ''maxEffort'' of None \<Rightarrow> Finite 50 | Some e \<Rightarrow> Get_double e),
       joint_' = Some 0, mimic_joint_' = Some 1,
       loop_rate_' = Some \<lparr>period_count = 1000000\<rparr>, update_connection_' = True\<rparr>,
      [Log INFO Starting]
      @ (if HasElement sdf ''hasPID'' then []
         else [SetParam 1 ''fmax'' 0
                 (case sdf ''maxEffort'' of None \<Rightarrow> Finite 50 | Some e \<Rightarrow> Get_double e)])
      @ [Log INFO (Loaded ''drive_joint'' ''left_finger_joint''
          (case sdf ''multiplier'' of None \<Rightarrow> Finite 1 | Some e \<Rightarrow> Get_double e)
          (case sdf ''offset'' of None \<Rightarrow> Finite 0 | Some e \<Rightarrow> Get_double e)
          (case sdf ''maxEffort'' of None \<Rightarrow> Finite 50 | Some e \<Rightarrow> Get_double e)
          (case sdf ''sensitiveness'' of None \<Rightarrow> Finite 0 | Some e \<Rightarrow> Get_double e))])"
proof -
  have node: "rclcpp_ok gripper_node" "\<And>name d. declare_parameter gripper_node name d = d"
    by (simp_all add: gripper_node_def declare_parameter_def)
  have joints: "GetJoint gripper_model (Get_string (text_value ''drive_joint'')) = Some 0"
    "GetJoint gripper_model (Get_string (text_value ''left_finger_joint'')) = Some 1"
    by (simp_all add: gripper_model_def text_value_def)
  have effort: "configured_max_effort sdf (gripper_world (Finite 0) (Finite 0)) 1 =
      (case sdf ''maxEffort'' of None \<Rightarrow> Finite 50 | Some e \<Rightarrow> Get_double e)"
    by (simp add: configured_max_effort_def gripper_world_def split: option.splits)
  show ?thesis
    unfolding Load_armed[OF node(1) assms joints] node(2) effort gripper_period
    by (simp add: text_value_def GazeboMimicJointPlugin_def raw_storage_def)
qed

lemma direct_gripper_eq:
  "direct_gripper =
     \<lparr>model_' = Some gripper_model, joint_name_' = ''drive_joint'',
      mimic_joint_name_' = ''left_finger_joint'', has_pid_' = False, pid_' = None,
      multiplier_' = Finite 2, offset_' = Finite (- 0.5), sensitiveness_' = Finite 0,
      max_effort_' = Finite 50, joint_' = Some 0, mimic_joint_' = Some 1,
      loop_rate_' = Some \<lparr>period_count = 1000000\<rparr>, update_connection_' = True\<rparr>"
  unfolding direct_gripper_def load_gripper_def
  by (subst Load_gripper)
     (simp_all add: gripper_sdf_def HasElement_def double_value_def)

lemma sensitive_gripper_eq:
  "sensitive_gripper =
     \<lparr>model_' = Some gripper_model, joint_name_' = ''drive_joint'',
      mimic_joint_name_' = ''left_finger_joint'', has_pid_' = False, pid_' = None,
      multiplier_' = Finite 2, offset_' = Finite (- 0.5),
      sensitiveness_' = round_double 0.1,
      max_effort_' = Finite 50, joint_' = Some 0, mimic_joint_' = Some 1,
      loop_rate_' = Some \<lparr>period_count = 1000000\<rparr>, update_connection_' = True\<rparr>"
  unfolding sensitive_gripper_def load_gripper_def
  by (subst Load_gripper)
     (simp_all add: gripper_sdf_def HasElement_def double_value_def)

lemma pid_gripper_eq:
  "pid_gripper =
     \<lparr>model_' = Some gripper_model, joint_name_' = ''drive_joint'',
      mimic_joint_name_' = ''left_finger_joint'', has_pid_' = True,
      pid_' = Some (control_toolbox_Pid (Finite 10) (round_double 0.1) (Finite 0)
                      (round_double 0.2) (fneg (round_double 0.2))),
      multiplier_' = Finite 2, offset_' = Finite (- 0.5), sensitiveness_' = Finite 0,
      max_effort_' = Finite 50, joint_' = Some 0, mimic_joint_' = Some 1,
      loop_rate_' = Some \<lparr>period_count = 1000000\<rparr>, update_connection_' = True\<rparr>"
  unfolding pid_gripper_def load_gripper_def
  by (subst Load_gripper)
     (simp_all add: gripper_sdf_def HasElement_def double_value_def)

lemma negative_effort_gripper_eq:
  "negative_effort_gripper =
     \<lparr>model_' = Some gripper_model, joint_name_' = ''drive_joint'',
      mimic_joint_name_' = ''left_finger_joint'', has_pid_' = True,
      pid_' = Some (control_toolbox_Pid (Finite 10) (round_double 0.1) (Finite 0)
                      (round_double 0.2) (fneg (round_double 0.2))),
      multiplier_' = Finite 2, offset_' = Finite (- 0.5), sensitiveness_' = Finite 0,
      max_effort_' = Finite (- 1), joint_' = Some 0, mimic_joint_' = Some 1,
      loop_rate_' = Some \<lparr>period_count = 1000000\<rparr>, update_connection_' = True\<rparr>"
  unfolding negative_effort_gripper_def load_gripper_def
  by (subst Load_gripper)
     (simp_all add: gripper_sdf_def HasElement_def double_value_def)

lemma recording_gripper_eq:
  "recording_gripper =
     \<lparr>model_' = Some gripper_model, joint_name_' = ''drive_joint'',
      mimic_joint_name_' = ''left_finger_joint'', has_pid_' = True,
      pid_' = Some [],
      multiplier_' = Finite 2, offset_' = Finite (- 0.5), sensitiveness_' = Finite 0,
      max_effort_' = Finite 50, joint_' = Some 0, mimic_joint_' = Some 1,
      loop_rate_' = Some \<lparr>period_count = 1000000\<rparr>, update_connection_' = True\<rparr>"
  unfolding recording_gripper_def load_gripper_def
  by (subst Load_gripper)
     (simp_all add: gripper_sdf_def HasElement_def double_value_def recording_Pid_def)

text \<open>The default gains and their controller, evaluated.\<close>

lemma default_gain_values:
  "round_double 0.1 = Finite (3602879701896397 / 2 ^ 55)"
  "round_double 0.2 = Finite (3602879701896397 / 2 ^ 54)"
  by (simp_all add: binary64)

text \<open>
  A tick on the boundary of a deadband of 1: the error \<open>1 - 2 ^ -60\<close> rounds to 1, which
  is not below the deadband, so the position command is issued.
\<close>

lemma deadband_boundary_rounds:
  "OnUpdate control_toolbox_computeCommand (direct_gripper\<lparr>sensitiveness_' := Finite 1\<rparr>)
       (gripper_world (Finite 0.75) (Finite (1 / 2 ^ 60))) =
     Inr (direct_gripper\<lparr>sensitiveness_' := Finite 1\<rparr>, [SetPosition 1 0 (Finite 1) True])"
  by (simp add: direct_gripper_eq OnUpdate_def gripper_world_def binary64)

section \<open>The claims\<close>

subsection \<open>C1: issued force commands and the effort bound\<close>

text \<open>
  C1, as stated: on every tick that issues a force command, whatever the controller
  computes, the force written to the mimic joint lies in \<open>[-max_effort, +max_effort]\<close>.
  \<open>Load\<close> takes \<open>maxEffort\<close> (or the joint's effort limit) as it is, with no check of its
  sign. With \<open>maxEffort = -1\<close> the plugin is armed, and a tick with master angle 1 and
  mimic angle 0 writes the force 1, which is above \<open>max_effort = -1\<close>: the interval is
  empty.
\<close>

theorem force_outside_negative_max_effort:
  "update_connection_' negative_effort_gripper \<and>
   max_effort_' negative_effort_gripper = Finite (- 1) \<and>
   OnUpdate control_toolbox_computeCommand negative_effort_gripper
       (gripper_world (Finite 1) (Finite 0)) =
     Inr (negative_effort_gripper
            \<lparr>pid_' := Some \<lparr>kp = Finite 10, ki = round_double 0.1, kd = Finite 0,
                            i_max = round_double 0.2, i_min = fneg (round_double 0.2),
                            integral_accumulator = Finite (3458764513820541 / 2 ^ 61),
                            previous_error = Finite 1.5\<rparr>\<rparr>,
          [SetForce 1 0 (Finite 1)]) \<and>
   \<not> (dle (fneg (max_effort_' negative_effort_gripper)) (Finite 1) \<and>
      dle (Finite 1) (max_effort_' negative_effort_gripper))"
  by (simp add: negative_effort_gripper_eq OnUpdate_def gripper_world_def
      control_toolbox_computeCommand_def control_toolbox_Pid_def binary64)

text \<open>
  C1, amended: when \<open>max_effort\<close> is not negative, every force command issued in a run of
  any number of ticks, with any controller and any joint angles, lies in
  \<open>[-max_effort, +max_effort]\<close>, unless the controller itself returned NaN, which is
  then the force written.
\<close>

theorem force_within_max_effort:
  assumes "dle (Finite 0) (max_effort_' this)"
    and "simulate computeCommand this ticks = Inr (this', out)"
    and "SetForce j i effort \<in> set out"
  shows "(dle (fneg (max_effort_' this)) effort \<and> dle effort (max_effort_' this)) \<or>
         (effort = NaN \<and> (\<exists>pid error dt. fst (computeCommand pid error dt) = NaN))"
proof -
  from simulate_effect[OF assms(2,3)] obtain pid error dt where
    effort: "effort = clamp (fst (computeCommand pid error dt))
                        (fneg (max_effort_' this)) (max_effort_' this)"
    by auto
  show ?thesis
  proof (cases "fst (computeCommand pid error dt) = NaN")
    case True
    with effort show ?thesis by (auto simp: clamp_NaN)
  next
    case False
    from clamp_within[OF this assms(1)] effort show ?thesis by simp
  qed
qed

theorem force_within_max_effort_witness:
  "dle (Finite 0) (max_effort_' pid_gripper) \<and>
   simulate control_toolbox_computeCommand pid_gripper
       [(\<lparr>simTime = 1000000\<rparr>, gripper_world (Finite 3) (Finite 0))] =
     Inr (pid_gripper
            \<lparr>pid_' := Some \<lparr>kp = Finite 10, ki = round_double 0.1, kd = Finite 0,
                            i_max = round_double 0.2, i_min = fneg (round_double 0.2),
                            integral_accumulator = Finite (3170534137668829 / 2 ^ 59),
                            previous_error = Finite 5.5\<rparr>\<rparr>,
          [SetForce 1 0 (Finite 50)]) \<and>
   SetForce 1 0 (Finite 50) \<in> set [SetForce 1 0 (Finite 50)] \<and>
   dle (fneg (max_effort_' pid_gripper)) (Finite 50) \<and>
   dle (Finite 50) (max_effort_' pid_gripper)"
proof -
  have bound: "dle (Finite 0) (max_effort_' pid_gripper)"
    by (simp add: pid_gripper_eq)
  have run: "simulate control_toolbox_computeCommand pid_gripper
       [(\<lparr>simTime = 1000000\<rparr>, gripper_world (Finite 3) (Finite 0))] =
     Inr (pid_gripper
            \<lparr>pid_' := Some \<lparr>kp = Finite 10, ki = round_double 0.1, kd = Finite 0,
                            i_max = round_double 0.2, i_min = fneg (round_double 0.2),
                            integral_accumulator = Finite (3170534137668829 / 2 ^ 59),
                            previous_error = Finite 5.5\<rparr>\<rparr>,
          [SetForce 1 0 (Finite 50)])"
    by (simp add: pid_gripper_eq WorldUpdateBegin_def OnUpdate_def gripper_world_def
        control_toolbox_computeCommand_def control_toolbox_Pid_def binary64)
  have issued: "SetForce 1 0 (Finite 50) \<in> set [SetForce 1 0 (Finite 50)]"
    by simp
  from force_within_max_effort[OF bound run issued]
  have "dle (fneg (max_effort_' pid_gripper)) (Finite 50) \<and>
        dle (Finite 50) (max_effort_' pid_gripper)"
    by simp
  with bound run issued show ?thesis by (intro conjI) (assumption | elim conjE)+
qed

subsection \<open>C2: a configuration without the mimicJoint element\<close>

text \<open>
  C2: when the plugin element has no \<open>mimicJoint\<close> child, \<open>Load\<close> on a freshly constructed
  plugin does not subscribe it; the log holds exactly one line of severity ERROR or
  FATAL (after the INFO line that every \<open>Load\<close> starts with), which is the missing
  \<open>mimicJoint\<close> line when the model is there, ROS is up and \<open>joint\<close> is present; \<open>Load\<close>
  writes nothing to any joint; and every run of the update loop afterwards leaves the
  plugin as it is and has no effect at all.
\<close>

theorem missing_mimicJoint_never_arms:
  assumes "sdf ''mimicJoint'' = None"
    and "Load Pid (GazeboMimicJointPlugin raw) parent sdf node world = (this, out)"
  shows "\<not> update_connection_' this \<and>
         length (filter is_diagnostic out) = 1 \<and>
         (parent \<noteq> None \<and> rclcpp_ok node \<and> sdf ''joint'' \<noteq> None \<longrightarrow>
            out = [Log INFO Starting, Log ERROR NoMimicJointElement]) \<and>
         filter is_joint_write out = [] \<and>
         simulate computeCommand this ticks = Inr (this, [])"
proof -
  note unarmed = constructed_not_subscribed[of raw]
  have "\<not> update_connection_' this \<and> length (filter is_diagnostic out) = 1 \<and>
        (parent \<noteq> None \<and> rclcpp_ok node \<and> sdf ''joint'' \<noteq> None \<longrightarrow>
            out = [Log INFO Starting, Log ERROR NoMimicJointElement]) \<and>
        filter is_joint_write out = []"
  proof (cases parent)
    case None
    with assms(2) unarmed show ?thesis by (auto simp: Load_null_model)
  next
    case model: (Some model)
    show ?thesis
    proof (cases "rclcpp_ok node")
      case False
      with assms(2) model unarmed show ?thesis by (auto simp: Load_ros_not_ok)
    next
      case ok: True
      show ?thesis
      proof (cases "sdf ''joint''")
        case None
        with assms(2) model ok unarmed show ?thesis by (auto simp: Load_no_joint)
      next
        case (Some je)
        with assms model ok unarmed show ?thesis by (auto simp: Load_no_mimicJoint)
      qed
    qed
  qed
  then show ?thesis by (simp add: simulate_not_subscribed)
qed

theorem missing_mimicJoint_never_arms_witness:
  "[''joint'' \<mapsto> text_value ''drive_joint''] ''mimicJoint'' = None \<and>
   Load control_toolbox_Pid (GazeboMimicJointPlugin raw_storage) (Some gripper_model)
       [''joint'' \<mapsto> text_value ''drive_joint''] gripper_node
       (gripper_world (Finite 0) (Finite 0)) =
     (raw_storage\<lparr>model_' := Some gripper_model, joint_name_' := ''drive_joint''\<rparr>,
      [Log INFO Starting, Log ERROR NoMimicJointElement]) \<and>
   \<not> update_connection_'
       ((raw_storage :: Pid_state plugin)\<lparr>model_' := Some gripper_model, joint_name_' := ''drive_joint''\<rparr>) \<and>
   length (filter is_diagnostic [Log INFO Starting, Log ERROR NoMimicJointElement]) = 1 \<and>
   filter is_joint_write [Log INFO Starting, Log ERROR NoMimicJointElement] = [] \<and>
   simulate control_toolbox_computeCommand
       (raw_storage\<lparr>model_' := Some gripper_model, joint_name_' := ''drive_joint''\<rparr>)
       [(\<lparr>simTime = 1000000\<rparr>, gripper_world (Finite 1) (Finite 0)),
        (\<lparr>simTime = 2000000\<rparr>, gripper_world (Finite 2) (Finite 0))] =
     Inr (raw_storage\<lparr>model_' := Some gripper_model, joint_name_' := ''drive_joint''\<rparr>, [])"
proof -
  let ?sdf = "[''joint'' \<mapsto> text_value ''drive_joint'']"
  let ?unarmed = "raw_storage\<lparr>model_' := Some gripper_model, joint_name_' := ''drive_joint''\<rparr>"
  have missing: "?sdf ''mimicJoint'' = None"
    by simp
  have load: "Load control_toolbox_Pid (GazeboMimicJointPlugin raw_storage) (Some gripper_model)
       ?sdf gripper_node (gripper_world (Finite 0) (Finite 0)) =
     (?unarmed, [Log INFO Starting, Log ERROR NoMimicJointElement])"
    by (subst Load_no_mimicJoint[where je = "text_value ''drive_joint''"])
       (simp_all add: gripper_node_def text_value_def GazeboMimicJointPlugin_def raw_storage_def)
  from missing_mimicJoint_never_arms[OF missing load, of control_toolbox_computeCommand
      "[(\<lparr>simTime = 1000000\<rparr>, gripper_world (Finite 1) (Finite 0)),
        (\<lparr>simTime = 2000000\<rparr>, gripper_world (Finite 2) (Finite 0))]"]
    missing load
  show ?thesis by (elim conjE, intro conjI) assumption+
qed

subsection \<open>C3: direct drive\<close>

text \<open>
  C3: on a tick in direct-drive mode (\<open>has_pid_'\<close> false) with
  \<open>abs (target - mimic_angle) >= sensitiveness\<close>, where
  \<open>target = master_angle * multiplier + offset\<close>, each operation being that of
  \<^verbatim>\<open>double\<close>, the tick's only effect is the position command
  \<open>SetPosition(0, target, true)\<close> on the mimic joint; among the effects there is no force
  command, and the plugin is unchanged.
\<close>

theorem direct_drive_position_command:
  assumes "joint_' this = Some j" and "mimic_joint_' this = Some m"
    and "\<not> has_pid_' this"
    and "dge (fabs (fsub (fadd (fmul (Position (world j)) (multiplier_' this)) (offset_' this))
                      (Position (world m))))
           (sensitiveness_' this)"
  shows "\<exists>out. OnUpdate computeCommand this world = Inr (this, out) \<and>
           out = [SetPosition m 0
                    (fadd (fmul (Position (world j)) (multiplier_' this)) (offset_' this)) True] \<and>
           filter is_SetForce out = []"
  using assms by (simp add: OnUpdate_def Let_def)

text \<open>
  At the master angle \<open>0.4\<close> the gripper's target, \<open>0.4 * 2 - 0.5\<close> in \<^verbatim>\<open>double\<close>, is
  \<open>1351079888211149 / 2 ^ 52\<close>; the \<^verbatim>\<open>double\<close> nearest to \<open>0.3\<close> is smaller.
\<close>

theorem direct_drive_position_command_witness:
  "joint_' direct_gripper = Some 0 \<and> mimic_joint_' direct_gripper = Some 1 \<and>
   \<not> has_pid_' direct_gripper \<and>
   dge (fabs (fsub (fadd (fmul (Position (gripper_world (round_double 0.4) (Finite 0) 0))
                             (multiplier_' direct_gripper))
                       (offset_' direct_gripper))
                 (Position (gripper_world (round_double 0.4) (Finite 0) 1))))
     (sensitiveness_' direct_gripper) \<and>
   OnUpdate control_toolbox_computeCommand direct_gripper
       (gripper_world (round_double 0.4) (Finite 0)) =
     Inr (direct_gripper, [SetPosition 1 0 (Finite (1351079888211149 / 2 ^ 52)) True])"
proof -
  let ?world = "gripper_world (round_double 0.4) (Finite 0)"
  have pointers: "joint_' direct_gripper = Some 0" "mimic_joint_' direct_gripper = Some 1"
    and direct: "\<not> has_pid_' direct_gripper"
    by (simp_all add: direct_gripper_eq)
  have target: "fadd (fmul (Position (?world 0)) (multiplier_' direct_gripper))
                  (offset_' direct_gripper) = Finite (1351079888211149 / 2 ^ 52)"
    by (simp add: direct_gripper_eq gripper_world_def binary64)
  have outside: "dge (fabs (fsub (fadd (fmul (Position (?world 0)) (multiplier_' direct_gripper))
                       (offset_' direct_gripper)) (Position (?world 1))))
     (sensitiveness_' direct_gripper)"
    unfolding target by (simp add: direct_gripper_eq gripper_world_def binary64)
  from direct_drive_position_command[OF pointers direct outside,
      of control_toolbox_computeCommand]
  have "OnUpdate control_toolbox_computeCommand direct_gripper ?world =
     Inr (direct_gripper, [SetPosition 1 0 (Finite (1351079888211149 / 2 ^ 52)) True])"
    unfolding target by simp
  with pointers direct outside show ?thesis by (intro conjI) assumption+
qed

subsection \<open>C4: the target\<close>

text \<open>
  C4: for every master angle, multiplier and offset, the target of a tick is
  \<open>master_angle * multiplier + offset\<close> itself, as \<^verbatim>\<open>double\<close> computes it, an infinity
  included: on a tick outside the deadband, direct drive commands exactly that position,
  and PID mode feeds the controller exactly that value minus the mimic angle as the
  error. Nothing bounds or otherwise transforms the target.
\<close>

theorem target_is_linear:
  assumes "joint_' this = Some j" and "mimic_joint_' this = Some m"
    and "target = fadd (fmul (Position (world j)) (multiplier_' this)) (offset_' this)"
    and "dge (fabs (fsub target (Position (world m)))) (sensitiveness_' this)"
  shows "(\<not> has_pid_' this \<longrightarrow>
            OnUpdate computeCommand this world = Inr (this, [SetPosition m 0 target True])) \<and>
         (has_pid_' this \<longrightarrow>
            (\<forall>pid rate. pid_' this = Some pid \<longrightarrow> loop_rate_' this = Some rate \<longrightarrow>
               OnUpdate computeCommand this world =
                 Inr (this\<lparr>pid_' := Some (snd (computeCommand pid
                                (fsub target (Position (world m))) (period_count rate)))\<rparr>,
                      [SetForce m 0
                         (clamp (fst (computeCommand pid (fsub target (Position (world m)))
                                        (period_count rate)))
                            (fneg (max_effort_' this)) (max_effort_' this))])))"
  using assms by (simp add: OnUpdate_def Let_def split: prod.splits)

text \<open>
  At the master angle \<open>2 ^ 1023\<close> the gripper's target overflows: the controller is fed
  the error \<open>+infinity\<close>.
\<close>

theorem target_is_linear_witness:
  "joint_' recording_gripper = Some 0 \<and> mimic_joint_' recording_gripper = Some 1 \<and>
   PInf = fadd (fmul (Position (gripper_world (Finite (2 ^ 1023)) (Finite 7) 0))
                  (multiplier_' recording_gripper))
            (offset_' recording_gripper) \<and>
   dge (fabs (fsub PInf (Position (gripper_world (Finite (2 ^ 1023)) (Finite 7) 1))))
     (sensitiveness_' recording_gripper) \<and>
   has_pid_' recording_gripper \<and> pid_' recording_gripper = Some [] \<and>
   loop_rate_' recording_gripper = Some \<lparr>period_count = 1000000\<rparr> \<and>
   OnUpdate recording_computeCommand recording_gripper
       (gripper_world (Finite (2 ^ 1023)) (Finite 7)) =
     Inr (recording_gripper\<lparr>pid_' := Some [(PInf, 1000000)]\<rparr>, [SetForce 1 0 (Finite 0)])"
proof -
  let ?world = "gripper_world (Finite (2 ^ 1023)) (Finite 7)"
  have pointers: "joint_' recording_gripper = Some 0" "mimic_joint_' recording_gripper = Some 1"
    by (simp_all add: recording_gripper_eq)
  have readings: "Position (?world 0) = Finite (2 ^ 1023)" "Position (?world 1) = Finite 7"
    "multiplier_' recording_gripper = Finite 2" "offset_' recording_gripper = Finite (- 0.5)"
    "sensitiveness_' recording_gripper = Finite 0" "max_effort_' recording_gripper = Finite 50"
    by (simp_all add: recording_gripper_eq gripper_world_def)
  have target: "PInf = fadd (fmul (Position (?world 0)) (multiplier_' recording_gripper))
            (offset_' recording_gripper)"
    unfolding readings fmul_overflows by simp
  have outside: "dge (fabs (fsub PInf (Position (?world 1)))) (sensitiveness_' recording_gripper)"
    unfolding readings by (simp add: fsub_def dge_def)
  have pid_mode: "has_pid_' recording_gripper" "pid_' recording_gripper = Some []"
    "loop_rate_' recording_gripper = Some \<lparr>period_count = 1000000\<rparr>"
    by (simp_all add: recording_gripper_eq)
  from target_is_linear[OF pointers target outside, of recording_computeCommand] pid_mode
  have "OnUpdate recording_computeCommand recording_gripper ?world =
     Inr (recording_gripper\<lparr>pid_' := Some [(PInf, 1000000)]\<rparr>, [SetForce 1 0 (Finite 0)])"
    unfolding readings
    by (simp add: recording_computeCommand_def fsub_def clamp_def std_min_def std_max_def)
  with pointers target outside pid_mode show ?thesis by (intro conjI) assumption+
qed

subsection \<open>C5: inside the deadband\<close>

text \<open>
  C5: on a tick with \<open>abs (target - mimic_angle) < sensitiveness\<close>, target and error as
  \<^verbatim>\<open>double\<close> computes them, the tick has no effect: neither a force nor a position command
  is issued, and the plugin, the state of its PID controller included, is left as it
  was.
\<close>

theorem deadband_withholds_command:
  assumes "joint_' this = Some j" and "mimic_joint_' this = Some m"
    and "dless (fabs (fsub (fadd (fmul (Position (world j)) (multiplier_' this)) (offset_' this))
                        (Position (world m))))
           (sensitiveness_' this)"
  shows "OnUpdate computeCommand this world = Inr (this, [])"
  using assms dless_not_dge by (simp add: OnUpdate_def Let_def)

theorem deadband_withholds_command_witness:
  "joint_' sensitive_gripper = Some 0 \<and> mimic_joint_' sensitive_gripper = Some 1 \<and>
   dless (fabs (fsub (fadd (fmul (Position (gripper_world (Finite 1) (round_double 1.45) 0))
                               (multiplier_' sensitive_gripper))
                         (offset_' sensitive_gripper))
                   (Position (gripper_world (Finite 1) (round_double 1.45) 1))))
     (sensitiveness_' sensitive_gripper) \<and>
   OnUpdate control_toolbox_computeCommand sensitive_gripper
       (gripper_world (Finite 1) (round_double 1.45)) =
     Inr (sensitive_gripper, [])"
proof -
  have pointers: "joint_' sensitive_gripper = Some 0" "mimic_joint_' sensitive_gripper = Some 1"
    by (simp_all add: sensitive_gripper_eq)
  have inside: "dless (fabs (fsub (fadd (fmul (Position (gripper_world (Finite 1) (round_double 1.45) 0))
                               (multiplier_' sensitive_gripper))
                         (offset_' sensitive_gripper))
                   (Position (gripper_world (Finite 1) (round_double 1.45) 1))))
     (sensitiveness_' sensitive_gripper)"
    by (simp add: sensitive_gripper_eq gripper_world_def binary64)
  from deadband_withholds_command[OF pointers inside, of control_toolbox_computeCommand]
    pointers inside
  show ?thesis by (intro conjI) assumption+
qed

subsection \<open>C6: at equilibrium with a deadband of zero\<close>

text \<open>
  C6, as stated: with master angle 1.0, multiplier 2.0, offset -0.5, mimic angle 1.5 and
  deadband 0.0, the target is 1.5, the error is 0.0, and no command is issued. The
  test in \<open>OnUpdate\<close> is \<open>fabs(angle - a) >= sensitiveness_\<close>, and \<open>0 >= 0\<close> holds: the
  direct-drive gripper (multiplier 2, offset -0.5, no \<open>sensitiveness\<close> element) at these
  angles issues the position command 1.5.
\<close>

theorem equilibrium_command_issued:
  "multiplier_' direct_gripper = Finite 2 \<and> offset_' direct_gripper = Finite (- 0.5) \<and>
   sensitiveness_' direct_gripper = Finite 0 \<and>
   Position (gripper_world (Finite 1) (Finite 1.5) 0) = Finite 1 \<and>
   Position (gripper_world (Finite 1) (Finite 1.5) 1) = Finite 1.5 \<and>
   OnUpdate control_toolbox_computeCommand direct_gripper
       (gripper_world (Finite 1) (Finite 1.5)) =
     Inr (direct_gripper, [SetPosition 1 0 (Finite 1.5) True]) \<and>
   OnUpdate control_toolbox_computeCommand direct_gripper
       (gripper_world (Finite 1) (Finite 1.5)) \<noteq>
     Inr (direct_gripper, [])"
  by (simp add: direct_gripper_eq OnUpdate_def gripper_world_def binary64)

text \<open>
  C6, amended: for that tick input the target is 1.5 and the error is 0.0, and a command
  is issued, since the deadband test is \<open>abs error >= deadband\<close>: in direct-drive mode the
  position command 1.5 with the flag set; in PID mode the force command that the
  controller computes for the error 0, clamped.
\<close>

theorem equilibrium_zero_deadband:
  assumes "joint_' this = Some j" and "mimic_joint_' this = Some m"
    and "Position (world j) = Finite 1" and "multiplier_' this = Finite 2"
    and "offset_' this = Finite (- 0.5)"
    and "Position (world m) = Finite 1.5" and "sensitiveness_' this = Finite 0"
  shows "fadd (fmul (Position (world j)) (multiplier_' this)) (offset_' this) = Finite 1.5 \<and>
         fsub (fadd (fmul (Position (world j)) (multiplier_' this)) (offset_' this))
           (Position (world m)) = Finite 0 \<and>
         (\<not> has_pid_' this \<longrightarrow>
            OnUpdate computeCommand this world = Inr (this, [SetPosition m 0 (Finite 1.5) True])) \<and>
         (has_pid_' this \<longrightarrow>
            (\<forall>pid rate. pid_' this = Some pid \<longrightarrow> loop_rate_' this = Some rate \<longrightarrow>
               OnUpdate computeCommand this world =
                 Inr (this\<lparr>pid_' := Some (snd (computeCommand pid (Finite 0) (period_count rate)))\<rparr>,
                      [SetForce m 0 (clamp (fst (computeCommand pid (Finite 0) (period_count rate)))
                                       (fneg (max_effort_' this)) (max_effort_' this))])))"
proof -
  have target: "fadd (fmul (Position (world j)) (multiplier_' this)) (offset_' this) = Finite 1.5"
    unfolding assms by (simp add: round_double_def ilog2_def ilog2_up.simps ilog2_down.simps
        pow2_def round_half_even_def fmul_def Let_def)
  have error: "fsub (Finite 1.5) (Position (world m)) = Finite 0"
    unfolding assms by (simp add: fsub_def round_double_def)
  have test: "dge (fabs (Finite 0)) (sensitiveness_' this)"
    unfolding assms by (simp add: dge_def)
  from assms(1,2) target error test show ?thesis
    by (simp add: OnUpdate_def Let_def split: prod.splits)
qed

theorem equilibrium_zero_deadband_witness:
  "joint_' pid_gripper = Some 0 \<and> mimic_joint_' pid_gripper = Some 1 \<and>
   Position (gripper_world (Finite 1) (Finite 1.5) 0) = Finite 1 \<and>
   multiplier_' pid_gripper = Finite 2 \<and> offset_' pid_gripper = Finite (- 0.5) \<and>
   Position (gripper_world (Finite 1) (Finite 1.5) 1) = Finite 1.5 \<and>
   sensitiveness_' pid_gripper = Finite 0 \<and> has_pid_' pid_gripper \<and>
   OnUpdate control_toolbox_computeCommand pid_gripper (gripper_world (Finite 1) (Finite 1.5)) =
     Inr (pid_gripper\<lparr>pid_' := Some (control_toolbox_Pid (Finite 10) (round_double 0.1)
                                        (Finite 0) (round_double 0.2) (fneg (round_double 0.2)))\<rparr>,
          [SetForce 1 0 (Finite 0)])"
proof -
  let ?world = "gripper_world (Finite 1) (Finite 1.5)"
  let ?pid = "control_toolbox_Pid (Finite 10) (round_double 0.1) (Finite 0) (round_double 0.2)
                (fneg (round_double 0.2))"
  have pointers: "joint_' pid_gripper = Some 0" "mimic_joint_' pid_gripper = Some 1"
    by (simp_all add: pid_gripper_eq)
  have input: "Position (?world 0) = Finite 1" "multiplier_' pid_gripper = Finite 2"
    "offset_' pid_gripper = Finite (- 0.5)" "Position (?world 1) = Finite 1.5"
    "sensitiveness_' pid_gripper = Finite 0"
    by (simp_all add: pid_gripper_eq gripper_world_def)
  have pid_mode: "has_pid_' pid_gripper" "pid_' pid_gripper = Some ?pid"
    "loop_rate_' pid_gripper = Some \<lparr>period_count = 1000000\<rparr>"
    "max_effort_' pid_gripper = Finite 50"
    by (simp_all add: pid_gripper_eq)
  have command: "control_toolbox_computeCommand ?pid (Finite 0) 1000000 = (Finite 0, ?pid)"
    by (simp add: control_toolbox_computeCommand_def control_toolbox_Pid_def binary64)
  from equilibrium_zero_deadband[OF pointers input, of control_toolbox_computeCommand]
    pid_mode command
  have "OnUpdate control_toolbox_computeCommand pid_gripper ?world =
     Inr (pid_gripper\<lparr>pid_' := Some ?pid\<rparr>, [SetForce 1 0 (Finite 0)])"
    by (simp add: clamp_def std_min_def std_max_def)
  with pointers input pid_mode(1) show ?thesis by (intro conjI) assumption+
qed

subsection \<open>C7: the time step fed to the PID controller\<close>

text \<open>With the recording controller, a tick appends at most one call, made with the period
  of \<open>loop_rate_'\<close>, and in PID mode it issues one force command per call.\<close>

lemma OnUpdate_recording:
  assumes "OnUpdate recording_computeCommand this world = Inr (this', out)"
    and "pid_' this = Some calls"
  shows "\<exists>new. pid_' this' = Some (calls @ new) \<and>
           (has_pid_' this \<longrightarrow> length new = length out) \<and>
           (\<forall>call \<in> set new. loop_rate_' this = Some \<lparr>period_count = snd call\<rparr>)"
  using assms
  by (auto simp: OnUpdate_def Let_def recording_computeCommand_def
      split: option.splits if_splits)

lemma simulate_recording:
  assumes "simulate recording_computeCommand this ticks = Inr (this', out)"
    and "pid_' this = Some calls"
  shows "\<exists>new. pid_' this' = Some (calls @ new) \<and>
           (has_pid_' this \<longrightarrow> length new = length out) \<and>
           (\<forall>call \<in> set new. loop_rate_' this = Some \<lparr>period_count = snd call\<rparr>)"
  using assms
proof (induction ticks arbitrary: this out calls)
  case Nil
  then show ?case by simp
next
  case (Cons tick ticks)
  from Cons.prems(1) obtain mid out1 out2 where
    step: "WorldUpdateBegin recording_computeCommand this tick = Inr (mid, out1)" and
    rest: "simulate recording_computeCommand mid ticks = Inr (this', out2)" and
    out: "out = out1 @ out2"
    by (rule simulate_Cons_cases)
  from WorldUpdateBegin_frame[OF step] have mid: "mid = this\<lparr>pid_' := pid_' mid\<rparr>" .
  have same: "has_pid_' mid = has_pid_' this" "loop_rate_' mid = loop_rate_' this"
    by (subst mid, simp)+
  from WorldUpdateBegin_cases[OF step] Cons.prems(2)
  obtain new1 where new1: "pid_' mid = Some (calls @ new1)"
    "has_pid_' this \<longrightarrow> length new1 = length out1"
    "\<forall>call \<in> set new1. loop_rate_' this = Some \<lparr>period_count = snd call\<rparr>"
    by (auto dest: OnUpdate_recording)
  from Cons.IH[OF rest new1(1)] obtain new2 where new2:
    "pid_' this' = Some ((calls @ new1) @ new2)"
    "has_pid_' this \<longrightarrow> length new2 = length out2"
    "\<forall>call \<in> set new2. loop_rate_' this = Some \<lparr>period_count = snd call\<rparr>"
    unfolding same by blast
  from new1 new2 out show ?case
    by (intro exI[of _ "new1 @ new2"]) auto
qed

text \<open>
  C7, as stated: on every tick in PID mode the time step fed to the controller is the
  time elapsed since the previous tick. \<open>OnUpdate\<close> takes nothing from the update event;
  it feeds \<open>loop_rate_->period().count()\<close>, fixed by \<open>Load\<close>. The gripper is loaded with a step
  size of 1 ms; in a run whose events come 1 ms and then 2 ms apart, the controller is
  called with 1000000 ns both times.
\<close>

theorem pid_fed_period_not_elapsed_time:
  "simulate recording_computeCommand recording_gripper
       [(\<lparr>simTime = 1000000\<rparr>, gripper_world (Finite 1) (Finite 0)),
        (\<lparr>simTime = 3000000\<rparr>, gripper_world (Finite 1) (Finite 0))] =
     Inr (recording_gripper\<lparr>pid_' := Some [(Finite 1.5, 1000000), (Finite 1.5, 1000000)]\<rparr>,
          [SetForce 1 0 (Finite 0), SetForce 1 0 (Finite 0)]) \<and>
   elapsed_since_previous 0
       [(\<lparr>simTime = 1000000\<rparr>, gripper_world (Finite 1) (Finite 0)),
        (\<lparr>simTime = 3000000\<rparr>, gripper_world (Finite 1) (Finite 0))] =
     [1000000, 2000000] \<and>
   map snd [(Finite 1.5, 1000000 :: int), (Finite 1.5, 1000000)] \<noteq> [1000000, 2000000]"
  by (simp add: recording_gripper_eq WorldUpdateBegin_def OnUpdate_def gripper_world_def
      recording_computeCommand_def binary64)

text \<open>
  C7, amended: on every tick in PID mode the time step fed to the controller, together
  with the error, is the nominal tick period that \<open>Load\<close> fixed from the host's step size:
  \<open>1.0 / (1.0 / GetMaxStepSize) * 1e9\<close>, each operation rounded as \<^verbatim>\<open>double\<close> does, then
  truncated to whole nanoseconds. It is the same at every tick, whatever the update
  events carry; the controller is called once per force command.
\<close>

theorem pid_fed_nominal_period:
  assumes "Load recording_Pid (GazeboMimicJointPlugin raw) (Some model) sdf node world = (this, out)"
    and "update_connection_' this" and "has_pid_' this"
    and "simulate recording_computeCommand this ticks = Inr (this', out')"
  shows "\<exists>calls. pid_' this' = Some calls \<and> length calls = length out' \<and>
           (\<forall>call \<in> set calls.
              snd call =
                int64_of_double
                  (fmul (fdiv (Finite 1) (fdiv (Finite 1) (GetMaxStepSize model)))
                     (Finite 1000000000)))"
proof -
  from assms(1,2)
  have "update_connection_' (fst (Load recording_Pid (GazeboMimicJointPlugin raw) (Some model) sdf node world))"
    by simp
  then obtain je me j m where *: "rclcpp_ok node"
      "sdf ''joint'' = Some je" "sdf ''mimicJoint'' = Some me"
      "GetJoint model (Get_string je) = Some j" "GetJoint model (Get_string me) = Some m"
    unfolding armed_cases by blast
  from assms(1) have this_def:
    "this = fst (Load recording_Pid (GazeboMimicJointPlugin raw) (Some model) sdf node world)"
    by simp
  have rate: "loop_rate_' this = Some (Rate_make_shared (fdiv (Finite 1) (GetMaxStepSize model)))"
    and pid: "has_pid_' this \<longrightarrow> pid_' this = Some []"
    unfolding this_def using * by (simp_all add: Load_armed recording_Pid_def)
  with assms(3) have "pid_' this = Some []" by simp
  from simulate_recording[OF assms(4) this] assms(3) rate
  show ?thesis by (auto simp: Rate_make_shared_def duration_cast_nanoseconds_def)
qed

text \<open>With a step size of 0.0067 s the controller is fed 6699999 ns.\<close>

theorem pid_fed_nominal_period_witness:
  "Load recording_Pid (GazeboMimicJointPlugin raw_storage)
       (Some (gripper_model\<lparr>GetMaxStepSize := round_double 0.0067\<rparr>))
       (gripper_sdf(''hasPID'' \<mapsto> text_value [])) gripper_node
       (gripper_world (Finite 0) (Finite 0)) =
     (recording_gripper\<lparr>model_' := Some (gripper_model\<lparr>GetMaxStepSize := round_double 0.0067\<rparr>),
                         loop_rate_' := Some \<lparr>period_count = 6699999\<rparr>\<rparr>,
      [Log INFO Starting,
       Log INFO (Loaded ''drive_joint'' ''left_finger_joint'' (Finite 2) (Finite (- 0.5))
                   (Finite 50) (Finite 0))]) \<and>
   update_connection_'
     (recording_gripper\<lparr>model_' := Some (gripper_model\<lparr>GetMaxStepSize := round_double 0.0067\<rparr>),
                         loop_rate_' := Some \<lparr>period_count = 6699999\<rparr>\<rparr>) \<and>
   has_pid_'
     (recording_gripper\<lparr>model_' := Some (gripper_model\<lparr>GetMaxStepSize := round_double 0.0067\<rparr>),
                         loop_rate_' := Some \<lparr>period_count = 6699999\<rparr>\<rparr>) \<and>
   simulate recording_computeCommand
       (recording_gripper\<lparr>model_' := Some (gripper_model\<lparr>GetMaxStepSize := round_double 0.0067\<rparr>),
                           loop_rate_' := Some \<lparr>period_count = 6699999\<rparr>\<rparr>)
       [(\<lparr>simTime = 6700000\<rparr>, gripper_world (Finite 1) (Finite 0)),
        (\<lparr>simTime = 13400000\<rparr>, gripper_world (Finite 1) (Finite 1))] =
     Inr (recording_gripper
            \<lparr>model_' := Some (gripper_model\<lparr>GetMaxStepSize := round_double 0.0067\<rparr>),
             loop_rate_' := Some \<lparr>period_count = 6699999\<rparr>,
             pid_' := Some [(Finite 1.5, 6699999), (Finite 0.5, 6699999)]\<rparr>,
          [SetForce 1 0 (Finite 0), SetForce 1 0 (Finite 0)]) \<and>
   int64_of_double
     (fmul (fdiv (Finite 1)
              (fdiv (Finite 1)
                 (GetMaxStepSize (gripper_model\<lparr>GetMaxStepSize := round_double 0.0067\<rparr>))))
        (Finite 1000000000)) = 6699999"
proof -
  let ?model = "gripper_model\<lparr>GetMaxStepSize := round_double 0.0067\<rparr>"
  let ?sdf = "gripper_sdf(''hasPID'' \<mapsto> text_value [])"
  let ?plugin = "recording_gripper\<lparr>model_' := Some ?model,
                   loop_rate_' := Some \<lparr>period_count = 6699999\<rparr>\<rparr>"
  have node: "rclcpp_ok gripper_node" "\<And>name d. declare_parameter gripper_node name d = d"
    by (simp_all add: gripper_node_def declare_parameter_def)
  have names: "?sdf ''joint'' = Some (text_value ''drive_joint'')"
    "?sdf ''mimicJoint'' = Some (text_value ''left_finger_joint'')"
    by (simp_all add: gripper_sdf_def)
  have joints: "GetJoint ?model (Get_string (text_value ''drive_joint'')) = Some 0"
    "GetJoint ?model (Get_string (text_value ''left_finger_joint'')) = Some 1"
    by (simp_all add: gripper_model_def text_value_def)
  have period: "Rate_make_shared (fdiv (Finite 1) (GetMaxStepSize ?model))
      = \<lparr>period_count = 6699999\<rparr>"
    by (simp add: binary64)
  have load: "Load recording_Pid (GazeboMimicJointPlugin raw_storage) (Some ?model) ?sdf
       gripper_node (gripper_world (Finite 0) (Finite 0)) =
     (?plugin,
      [Log INFO Starting,
       Log INFO (Loaded ''drive_joint'' ''left_finger_joint'' (Finite 2) (Finite (- 0.5))
                   (Finite 50) (Finite 0))])"
    unfolding Load_armed[OF node(1) names joints] node(2) period recording_gripper_eq
    by (simp add: gripper_sdf_def HasElement_def double_value_def text_value_def
        recording_Pid_def configured_max_effort_def gripper_world_def
        GazeboMimicJointPlugin_def raw_storage_def)
  have armed: "update_connection_' ?plugin" and pid_mode: "has_pid_' ?plugin"
    by (simp_all add: recording_gripper_eq)
  have run: "simulate recording_computeCommand ?plugin
       [(\<lparr>simTime = 6700000\<rparr>, gripper_world (Finite 1) (Finite 0)),
        (\<lparr>simTime = 13400000\<rparr>, gripper_world (Finite 1) (Finite 1))] =
     Inr (?plugin\<lparr>pid_' := Some [(Finite 1.5, 6699999), (Finite 0.5, 6699999)]\<rparr>,
          [SetForce 1 0 (Finite 0), SetForce 1 0 (Finite 0)])"
    by (simp add: recording_gripper_eq WorldUpdateBegin_def OnUpdate_def gripper_world_def
        recording_computeCommand_def binary64)
  have fed: "int64_of_double
     (fmul (fdiv (Finite 1) (fdiv (Finite 1) (GetMaxStepSize ?model))) (Finite 1000000000))
       = 6699999"
  proof -
    from pid_fed_nominal_period[OF load armed pid_mode run]
    have "\<forall>call \<in> set [(Finite 1.5, 6699999 :: int), (Finite 0.5, 6699999)].
            snd call = int64_of_double
              (fmul (fdiv (Finite 1) (fdiv (Finite 1) (GetMaxStepSize ?model)))
                 (Finite 1000000000))"
      by simp
    then show ?thesis by simp
  qed
  from load armed pid_mode run fed show ?thesis
    by (simp only: simp_thms)
qed

subsection \<open>C8: what the validation gate checks\<close>

text \<open>
  C8, as stated: the controller is armed only when the master and the mimic joint
  differ and both names resolve; a configuration that names one joint as both must
  fail. \<open>Load\<close> compares neither the two names nor the two pointers: with \<open>drive_joint\<close> as
  \<open>joint\<close> and as \<open>mimicJoint\<close> the gripper's plugin is subscribed, both pointers at the
  same joint.
\<close>

theorem same_joint_is_armed:
  "joint_name_' (load_gripper control_toolbox_Pid same_joint_sdf) = ''drive_joint'' \<and>
   mimic_joint_name_' (load_gripper control_toolbox_Pid same_joint_sdf) = ''drive_joint'' \<and>
   joint_' (load_gripper control_toolbox_Pid same_joint_sdf) = Some 0 \<and>
   mimic_joint_' (load_gripper control_toolbox_Pid same_joint_sdf) = Some 0 \<and>
   update_connection_' (load_gripper control_toolbox_Pid same_joint_sdf)"
proof -
  have node: "rclcpp_ok gripper_node"
    by (simp add: gripper_node_def)
  have names: "same_joint_sdf ''joint'' = Some (text_value ''drive_joint'')"
    "same_joint_sdf ''mimicJoint'' = Some (text_value ''drive_joint'')"
    by (simp_all add: same_joint_sdf_def)
  have resolved: "GetJoint gripper_model (Get_string (text_value ''drive_joint'')) = Some 0"
    by (simp add: gripper_model_def text_value_def)
  show ?thesis
    unfolding load_gripper_def Load_armed[OF node names resolved resolved]
    by (simp add: text_value_def)
qed

text \<open>
  C8, amended: a freshly constructed plugin is armed by \<open>Load\<close> exactly when the host model
  is not null, ROS is up, the \<open>joint\<close> and \<open>mimicJoint\<close> elements are present and both
  names resolve to joints of the model, which the plugin then points to. That the two
  joints differ is not checked.
\<close>

theorem armed_iff_both_names_resolve:
  assumes "Load Pid (GazeboMimicJointPlugin raw) parent sdf node world = (this, out)"
  shows "update_connection_' this \<longleftrightarrow>
     (\<exists>model je me j m. parent = Some model \<and> rclcpp_ok node \<and>
        sdf ''joint'' = Some je \<and> sdf ''mimicJoint'' = Some me \<and>
        GetJoint model (Get_string je) = Some j \<and> GetJoint model (Get_string me) = Some m \<and>
        joint_' this = Some j \<and> mimic_joint_' this = Some m)"
proof
  assume "update_connection_' this"
  with assms
  have "update_connection_' (fst (Load Pid (GazeboMimicJointPlugin raw) parent sdf node world))"
    by simp
  then obtain model je me j m where *: "parent = Some model" "rclcpp_ok node"
      "sdf ''joint'' = Some je" "sdf ''mimicJoint'' = Some me"
      "GetJoint model (Get_string je) = Some j" "GetJoint model (Get_string me) = Some m"
    unfolding armed_cases by blast
  from assms have "this = fst (Load Pid (GazeboMimicJointPlugin raw) parent sdf node world)"
    by simp
  with * have "joint_' this = Some j" "mimic_joint_' this = Some m"
    by (simp_all add: Load_armed)
  with * show "\<exists>model je me j m. parent = Some model \<and> rclcpp_ok node \<and>
        sdf ''joint'' = Some je \<and> sdf ''mimicJoint'' = Some me \<and>
        GetJoint model (Get_string je) = Some j \<and> GetJoint model (Get_string me) = Some m \<and>
        joint_' this = Some j \<and> mimic_joint_' this = Some m"
    by blast
next
  assume "\<exists>model je me j m. parent = Some model \<and> rclcpp_ok node \<and>
        sdf ''joint'' = Some je \<and> sdf ''mimicJoint'' = Some me \<and>
        GetJoint model (Get_string je) = Some j \<and> GetJoint model (Get_string me) = Some m \<and>
        joint_' this = Some j \<and> mimic_joint_' this = Some m"
  then have "update_connection_' (fst (Load Pid (GazeboMimicJointPlugin raw) parent sdf node world))"
    unfolding armed_cases by blast
  with assms show "update_connection_' this" by simp
qed

theorem armed_iff_both_names_resolve_witness:
  "Load control_toolbox_Pid (GazeboMimicJointPlugin raw_storage) (Some gripper_model)
       gripper_sdf gripper_node (gripper_world (Finite 0) (Finite 0)) =
     (direct_gripper,
      [Log INFO Starting, SetParam 1 ''fmax'' 0 (Finite 50),
       Log INFO (Loaded ''drive_joint'' ''left_finger_joint'' (Finite 2) (Finite (- 0.5))
                   (Finite 50) (Finite 0))]) \<and>
   rclcpp_ok gripper_node \<and>
   gripper_sdf ''joint'' = Some (text_value ''drive_joint'') \<and>
   gripper_sdf ''mimicJoint'' = Some (text_value ''left_finger_joint'') \<and>
   GetJoint gripper_model (Get_string (text_value ''drive_joint'')) = Some 0 \<and>
   GetJoint gripper_model (Get_string (text_value ''left_finger_joint'')) = Some 1 \<and>
   joint_' direct_gripper = Some 0 \<and> mimic_joint_' direct_gripper = Some 1 \<and>
   update_connection_' direct_gripper"
proof -
  have load: "Load control_toolbox_Pid (GazeboMimicJointPlugin raw_storage) (Some gripper_model)
       gripper_sdf gripper_node (gripper_world (Finite 0) (Finite 0)) =
     (direct_gripper,
      [Log INFO Starting, SetParam 1 ''fmax'' 0 (Finite 50),
       Log INFO (Loaded ''drive_joint'' ''left_finger_joint'' (Finite 2) (Finite (- 0.5))
                   (Finite 50) (Finite 0))])"
    unfolding direct_gripper_eq
    by (subst Load_gripper)
       (simp_all add: gripper_sdf_def HasElement_def double_value_def)
  have gate: "rclcpp_ok gripper_node"
    "gripper_sdf ''joint'' = Some (text_value ''drive_joint'')"
    "gripper_sdf ''mimicJoint'' = Some (text_value ''left_finger_joint'')"
    "GetJoint gripper_model (Get_string (text_value ''drive_joint'')) = Some 0"
    "GetJoint gripper_model (Get_string (text_value ''left_finger_joint'')) = Some 1"
    "joint_' direct_gripper = Some 0" "mimic_joint_' direct_gripper = Some 1"
    by (simp_all add: gripper_node_def gripper_sdf_def gripper_model_def text_value_def
        direct_gripper_eq)
  then have "update_connection_' direct_gripper"
    unfolding armed_iff_both_names_resolve[OF load] by blast
  with load gate show ?thesis by (intro conjI) assumption+
qed

subsection \<open>C9: default gains\<close>

lemma declare_parameter_explicit:
  "declare_parameter (explicit_default_gains prefix node) (prefix @ ''.p'') d = Finite 10"
  "declare_parameter (explicit_default_gains prefix node) (prefix @ ''.i'') d = round_double 0.1"
  "declare_parameter (explicit_default_gains prefix node) (prefix @ ''.d'') d = Finite 0"
  "declare_parameter (explicit_default_gains prefix node) (prefix @ ''.i_clamp'') d = round_double 0.2"
  by (simp_all add: declare_parameter_def explicit_default_gains_def)

text \<open>
  C9: when the node has no values for the four gain parameters of the master joint,
  \<open>Load\<close> does exactly what it does on a node that gives them the values
  \<open>p = 10, i = 0.1, d = 0, i_clamp = 0.2\<close> (as \<^verbatim>\<open>double\<close> literals) explicitly: same plugin
  object, same effects;
  and when the \<open>hasPID\<close> element is present and the plugin is armed, its controller is
  the one constructed from \<open>(10, 0.1, 0, 0.2, -0.2)\<close>, the integral bounds being \<open>i_clamp\<close>
  and \<open>-i_clamp\<close>.
\<close>

theorem absent_gains_are_defaults:
  assumes "sdf ''joint'' = Some je"
    and "parameter_overrides node (''gains.'' @ Get_string je @ ''.p'') = None"
    and "parameter_overrides node (''gains.'' @ Get_string je @ ''.i'') = None"
    and "parameter_overrides node (''gains.'' @ Get_string je @ ''.d'') = None"
    and "parameter_overrides node (''gains.'' @ Get_string je @ ''.i_clamp'') = None"
  shows "Load Pid this parent sdf node world =
           Load Pid this parent sdf (explicit_default_gains (''gains.'' @ Get_string je) node) world
         \<and> (update_connection_' (fst (Load Pid (GazeboMimicJointPlugin raw) parent sdf node world)) \<and>
              HasElement sdf ''hasPID'' \<longrightarrow>
            pid_' (fst (Load Pid (GazeboMimicJointPlugin raw) parent sdf node world))
              = Some (Pid (Finite 10) (round_double 0.1) (Finite 0) (round_double 0.2)
                     (fneg (round_double 0.2))))"
proof -
  let ?prefix = "''gains.'' @ Get_string je"
  let ?node' = "explicit_default_gains ?prefix node"
  have absent: "declare_parameter node (?prefix @ ''.p'') d = d"
    "declare_parameter node (?prefix @ ''.i'') d = d"
    "declare_parameter node (?prefix @ ''.d'') d = d"
    "declare_parameter node (?prefix @ ''.i_clamp'') d = d" for d
    using assms(2-5) by (simp_all add: declare_parameter_def)
  have explicit: "declare_parameter ?node' (?prefix @ ''.p'') d = Finite 10"
    "declare_parameter ?node' (?prefix @ ''.i'') d = round_double 0.1"
    "declare_parameter ?node' (?prefix @ ''.d'') d = Finite 0"
    "declare_parameter ?node' (?prefix @ ''.i_clamp'') d = round_double 0.2" for d
    by (rule declare_parameter_explicit)+
  have bridge:
    "declare_parameter ?node' (?prefix @ ''.p'') (Finite 10)
       = declare_parameter node (?prefix @ ''.p'') (Finite 10)"
    "declare_parameter ?node' (?prefix @ ''.i'') (round_double 0.1)
       = declare_parameter node (?prefix @ ''.i'') (round_double 0.1)"
    "declare_parameter ?node' (?prefix @ ''.d'') (Finite 0)
       = declare_parameter node (?prefix @ ''.d'') (Finite 0)"
    "declare_parameter ?node' (?prefix @ ''.i_clamp'') (round_double 0.2)
       = declare_parameter node (?prefix @ ''.i_clamp'') (round_double 0.2)"
    by (simp_all only: absent explicit)
  have ok: "rclcpp_ok ?node' = rclcpp_ok node"
    by (simp add: explicit_default_gains_def)
  have same: "Load Pid this parent sdf node world = Load Pid this parent sdf ?node' world"
  proof (cases parent)
    case None
    then show ?thesis by (simp add: Load_null_model)
  next
    case model: (Some model)
    show ?thesis
    proof (cases "rclcpp_ok node")
      case False
      with model ok show ?thesis by (simp add: Load_ros_not_ok)
    next
      case True
      show ?thesis
      proof (cases "sdf ''mimicJoint''")
        case None
        with model ok True assms(1) show ?thesis by (simp add: Load_no_mimicJoint)
      next
        case me: (Some me)
        show ?thesis
        proof (cases "GetJoint model (Get_string je)")
          case None
          with model ok True assms(1) me bridge show ?thesis
            by (simp add: Load_def Let_def)
        next
          case j: (Some j)
          show ?thesis
          proof (cases "GetJoint model (Get_string me)")
            case None
            with model ok True assms(1) me j bridge show ?thesis
              by (simp add: Load_def Let_def)
          next
            case (Some m)
            with model ok True assms(1) me j bridge show ?thesis
              by (simp add: Load_armed)
          qed
        qed
      qed
    qed
  qed
  have "pid_' (fst (Load Pid (GazeboMimicJointPlugin raw) parent sdf node world))
              = Some (Pid (Finite 10) (round_double 0.1) (Finite 0) (round_double 0.2)
                     (fneg (round_double 0.2)))"
    if armed: "update_connection_' (fst (Load Pid (GazeboMimicJointPlugin raw) parent sdf node world))"
      and pid: "HasElement sdf ''hasPID''"
  proof -
    from armed obtain model je' me j m where *: "parent = Some model" "rclcpp_ok node"
      "sdf ''joint'' = Some je'" "sdf ''mimicJoint'' = Some me"
      "GetJoint model (Get_string je') = Some j" "GetJoint model (Get_string me) = Some m"
      unfolding armed_cases by blast
    with assms(1) have "je' = je" by simp
    with * pid absent show ?thesis by (simp add: Load_armed)
  qed
  with same show ?thesis by blast
qed

theorem absent_gains_are_defaults_witness:
  "(gripper_sdf(''hasPID'' \<mapsto> text_value [])) ''joint'' = Some (text_value ''drive_joint'') \<and>
   parameter_overrides gripper_node (''gains.'' @ Get_string (text_value ''drive_joint'') @ ''.p'') = None \<and>
   parameter_overrides gripper_node (''gains.'' @ Get_string (text_value ''drive_joint'') @ ''.i'') = None \<and>
   parameter_overrides gripper_node (''gains.'' @ Get_string (text_value ''drive_joint'') @ ''.d'') = None \<and>
   parameter_overrides gripper_node (''gains.'' @ Get_string (text_value ''drive_joint'') @ ''.i_clamp'') = None \<and>
   Load control_toolbox_Pid (GazeboMimicJointPlugin raw_storage) (Some gripper_model)
       (gripper_sdf(''hasPID'' \<mapsto> text_value [])) gripper_node (gripper_world (Finite 0) (Finite 0)) =
     Load control_toolbox_Pid (GazeboMimicJointPlugin raw_storage) (Some gripper_model)
       (gripper_sdf(''hasPID'' \<mapsto> text_value []))
       (explicit_default_gains (''gains.'' @ Get_string (text_value ''drive_joint'')) gripper_node)
       (gripper_world (Finite 0) (Finite 0)) \<and>
   pid_' (fst (Load control_toolbox_Pid (GazeboMimicJointPlugin raw_storage) (Some gripper_model)
       (gripper_sdf(''hasPID'' \<mapsto> text_value [])) gripper_node (gripper_world (Finite 0) (Finite 0)))) =
     Some \<lparr>kp = Finite 10, ki = round_double 0.1, kd = Finite 0, i_max = round_double 0.2,
           i_min = fneg (round_double 0.2),
           integral_accumulator = Finite 0, previous_error = Finite 0\<rparr>"
proof -
  let ?sdf = "gripper_sdf(''hasPID'' \<mapsto> text_value [])"
  have name: "?sdf ''joint'' = Some (text_value ''drive_joint'')"
    by (simp add: gripper_sdf_def)
  have absent:
    "parameter_overrides gripper_node (''gains.'' @ Get_string (text_value ''drive_joint'') @ ''.p'') = None"
    "parameter_overrides gripper_node (''gains.'' @ Get_string (text_value ''drive_joint'') @ ''.i'') = None"
    "parameter_overrides gripper_node (''gains.'' @ Get_string (text_value ''drive_joint'') @ ''.d'') = None"
    "parameter_overrides gripper_node (''gains.'' @ Get_string (text_value ''drive_joint'') @ ''.i_clamp'') = None"
    by (simp_all add: gripper_node_def)
  have armed: "update_connection_' (fst (Load control_toolbox_Pid (GazeboMimicJointPlugin raw_storage)
      (Some gripper_model) ?sdf gripper_node (gripper_world (Finite 0) (Finite 0))))"
    by (subst Load_gripper) (simp_all add: gripper_sdf_def)
  have marker: "HasElement ?sdf ''hasPID''"
    by (simp add: HasElement_def)
  from absent_gains_are_defaults[where sdf = ?sdf and je = "text_value ''drive_joint''"
      and node = gripper_node and Pid = control_toolbox_Pid
      and this = "GazeboMimicJointPlugin raw_storage" and parent = "Some gripper_model"
      and world = "gripper_world (Finite 0) (Finite 0)" and raw = raw_storage, OF name absent] armed marker
  have "Load control_toolbox_Pid (GazeboMimicJointPlugin raw_storage) (Some gripper_model)
       ?sdf gripper_node (gripper_world (Finite 0) (Finite 0)) =
     Load control_toolbox_Pid (GazeboMimicJointPlugin raw_storage) (Some gripper_model) ?sdf
       (explicit_default_gains (''gains.'' @ Get_string (text_value ''drive_joint'')) gripper_node)
       (gripper_world (Finite 0) (Finite 0))"
    and "pid_' (fst (Load control_toolbox_Pid (GazeboMimicJointPlugin raw_storage) (Some gripper_model)
       ?sdf gripper_node (gripper_world (Finite 0) (Finite 0)))) =
     Some \<lparr>kp = Finite 10, ki = round_double 0.1, kd = Finite 0, i_max = round_double 0.2,
           i_min = fneg (round_double 0.2),
           integral_accumulator = Finite 0, previous_error = Finite 0\<rparr>"
    unfolding control_toolbox_Pid_def by blast+
  with name absent show ?thesis by (intro conjI) assumption+
qed

subsection \<open>C10: the default of max_effort, the static force capacity, the clamp bound\<close>

text \<open>
  C10: for a plugin armed by \<open>Load\<close>: when the element has no \<open>maxEffort\<close> child,
  \<open>max_effort\<close> is the mimic joint's effort limit; PID mode is on exactly when the \<open>hasPID\<close>
  element is present; among the effects of \<open>Load\<close> the write of the static force capacity,
  \<open>SetParam("fmax", 0, max_effort)\<close> on the mimic joint, occurs exactly once when PID mode
  is off and not at all when it is on; and no run of the update loop ever writes it.
  In PID mode every effect of a run is a force command on the mimic joint whose value
  is the controller's command \<open>c\<close> clamped by \<open>max_effort\<close>: for a command that is a number
  and \<open>max_effort >= 0\<close> it is \<open>max_effort\<close> when \<open>c\<close> is above it, \<open>-max_effort\<close> when \<open>c\<close> is
  below that, and \<open>c\<close> itself otherwise.
\<close>

theorem max_effort_default_and_static_capacity:
  assumes "Load Pid (GazeboMimicJointPlugin raw) parent sdf node world = (this, out)"
    and "update_connection_' this"
  shows "\<exists>m. mimic_joint_' this = Some m \<and>
           (sdf ''maxEffort'' = None \<longrightarrow> max_effort_' this = GetEffortLimit (world m)) \<and>
           has_pid_' this = HasElement sdf ''hasPID'' \<and>
           filter is_SetParam out =
             (if has_pid_' this then [] else [SetParam m ''fmax'' 0 (max_effort_' this)]) \<and>
           (\<forall>this' out'. simulate computeCommand this ticks = Inr (this', out') \<longrightarrow>
              filter is_SetParam out' = [] \<and>
              (has_pid_' this \<longrightarrow>
                 (\<forall>e \<in> set out'. \<exists>c effort.
                    (\<exists>pid error dt. c = fst (computeCommand pid error dt)) \<and>
                    e = SetForce m 0 effort \<and>
                    effort = clamp c (fneg (max_effort_' this)) (max_effort_' this) \<and>
                    (c \<noteq> NaN \<and> dle (Finite 0) (max_effort_' this) \<longrightarrow>
                       effort = (if dless (max_effort_' this) c then max_effort_' this
                                 else if dless c (fneg (max_effort_' this))
                                 then fneg (max_effort_' this) else c)))))"
proof -
  from assms
  have "update_connection_' (fst (Load Pid (GazeboMimicJointPlugin raw) parent sdf node world))"
    by simp
  then obtain model je me j m where *: "parent = Some model" "rclcpp_ok node"
      "sdf ''joint'' = Some je" "sdf ''mimicJoint'' = Some me"
      "GetJoint model (Get_string je) = Some j" "GetJoint model (Get_string me) = Some m"
    unfolding armed_cases by blast
  from assms(1)
  have this_def: "this = fst (Load Pid (GazeboMimicJointPlugin raw) parent sdf node world)"
    and out_def: "out = snd (Load Pid (GazeboMimicJointPlugin raw) parent sdf node world)"
    by simp_all
  have loaded: "mimic_joint_' this = Some m"
    "sdf ''maxEffort'' = None \<longrightarrow> max_effort_' this = GetEffortLimit (world m)"
    "has_pid_' this = HasElement sdf ''hasPID''"
    "filter is_SetParam out =
             (if has_pid_' this then [] else [SetParam m ''fmax'' 0 (max_effort_' this)])"
    unfolding this_def out_def using *
    by (simp_all add: Load_armed configured_max_effort_def)
  have run: "filter is_SetParam out' = [] \<and>
              (has_pid_' this \<longrightarrow>
                 (\<forall>e \<in> set out'. \<exists>c effort.
                    (\<exists>pid error dt. c = fst (computeCommand pid error dt)) \<and>
                    e = SetForce m 0 effort \<and>
                    effort = clamp c (fneg (max_effort_' this)) (max_effort_' this) \<and>
                    (c \<noteq> NaN \<and> dle (Finite 0) (max_effort_' this) \<longrightarrow>
                       effort = (if dless (max_effort_' this) c then max_effort_' this
                                 else if dless c (fneg (max_effort_' this))
                                 then fneg (max_effort_' this) else c))))"
    if sim: "simulate computeCommand this ticks = Inr (this', out')" for this' out'
  proof (intro conjI impI ballI)
    from sim show "filter is_SetParam out' = []" by (rule simulate_no_SetParam)
  next
    fix e
    assume pid_mode: "has_pid_' this" and e: "e \<in> set out'"
    from simulate_effect[OF sim e] loaded(1) pid_mode
    obtain pid error dt where
      force: "e = SetForce m 0 (clamp (fst (computeCommand pid error dt))
                                  (fneg (max_effort_' this)) (max_effort_' this))"
      by auto
    let ?c = "fst (computeCommand pid error dt)"
    have "?c \<noteq> NaN \<and> dle (Finite 0) (max_effort_' this) \<longrightarrow>
            clamp ?c (fneg (max_effort_' this)) (max_effort_' this) =
              (if dless (max_effort_' this) ?c then max_effort_' this
               else if dless ?c (fneg (max_effort_' this))
               then fneg (max_effort_' this) else ?c)"
      using clamp_value by blast
    with force show "\<exists>c effort.
                    (\<exists>pid error dt. c = fst (computeCommand pid error dt)) \<and>
                    e = SetForce m 0 effort \<and>
                    effort = clamp c (fneg (max_effort_' this)) (max_effort_' this) \<and>
                    (c \<noteq> NaN \<and> dle (Finite 0) (max_effort_' this) \<longrightarrow>
                       effort = (if dless (max_effort_' this) c then max_effort_' this
                                 else if dless c (fneg (max_effort_' this))
                                 then fneg (max_effort_' this) else c))"
      by blast
  qed
  with loaded show ?thesis by (intro exI[of _ m] conjI allI impI) blast+
qed

text \<open>
  The gripper without \<open>maxEffort\<close>: in direct drive \<open>Load\<close> writes the capacity 50 once; in
  PID mode it does not, and a command of about 55 is issued as the force 50.
\<close>

theorem max_effort_default_and_static_capacity_witness:
  "Load control_toolbox_Pid (GazeboMimicJointPlugin raw_storage) (Some gripper_model)
       gripper_sdf gripper_node (gripper_world (Finite 0) (Finite 0)) =
     (direct_gripper,
      [Log INFO Starting, SetParam 1 ''fmax'' 0 (Finite 50),
       Log INFO (Loaded ''drive_joint'' ''left_finger_joint'' (Finite 2) (Finite (- 0.5))
                   (Finite 50) (Finite 0))]) \<and>
   update_connection_' direct_gripper \<and>
   mimic_joint_' direct_gripper = Some 1 \<and>
   gripper_sdf ''maxEffort'' = None \<and>
   max_effort_' direct_gripper = GetEffortLimit (gripper_world (Finite 0) (Finite 0) 1) \<and>
   \<not> has_pid_' direct_gripper \<and>
   filter is_SetParam
      [Log INFO Starting, SetParam 1 ''fmax'' 0 (Finite 50),
       Log INFO (Loaded ''drive_joint'' ''left_finger_joint'' (Finite 2) (Finite (- 0.5))
                   (Finite 50) (Finite 0))] =
     [SetParam 1 ''fmax'' 0 (max_effort_' direct_gripper)] \<and>
   Load control_toolbox_Pid (GazeboMimicJointPlugin raw_storage) (Some gripper_model)
       (gripper_sdf(''hasPID'' \<mapsto> text_value [])) gripper_node
       (gripper_world (Finite 0) (Finite 0)) =
     (pid_gripper,
      [Log INFO Starting,
       Log INFO (Loaded ''drive_joint'' ''left_finger_joint'' (Finite 2) (Finite (- 0.5))
                   (Finite 50) (Finite 0))]) \<and>
   update_connection_' pid_gripper \<and> has_pid_' pid_gripper \<and>
   max_effort_' pid_gripper = GetEffortLimit (gripper_world (Finite 0) (Finite 0) 1) \<and>
   simulate control_toolbox_computeCommand pid_gripper
       [(\<lparr>simTime = 1000000\<rparr>, gripper_world (Finite 3) (Finite 0))] =
     Inr (pid_gripper
            \<lparr>pid_' := Some \<lparr>kp = Finite 10, ki = round_double 0.1, kd = Finite 0,
                            i_max = round_double 0.2, i_min = fneg (round_double 0.2),
                            integral_accumulator = Finite (3170534137668829 / 2 ^ 59),
                            previous_error = Finite 5.5\<rparr>\<rparr>,
          [SetForce 1 0 (Finite 50)]) \<and>
   dless (max_effort_' pid_gripper) (Finite (7740639265161635 / 2 ^ 47)) \<and>
   clamp (Finite (7740639265161635 / 2 ^ 47)) (fneg (max_effort_' pid_gripper))
     (max_effort_' pid_gripper) = max_effort_' pid_gripper"
proof -
  let ?direct_out = "[Log INFO Starting, SetParam 1 ''fmax'' 0 (Finite 50),
       Log INFO (Loaded ''drive_joint'' ''left_finger_joint'' (Finite 2) (Finite (- 0.5))
                   (Finite 50) (Finite 0))]"
  let ?pid_sdf = "gripper_sdf(''hasPID'' \<mapsto> text_value [])"
  let ?pid_out = "[Log INFO Starting,
       Log INFO (Loaded ''drive_joint'' ''left_finger_joint'' (Finite 2) (Finite (- 0.5))
                   (Finite 50) (Finite 0))]"
  let ?ticks = "[(\<lparr>simTime = 1000000\<rparr>, gripper_world (Finite 3) (Finite 0))]"
  let ?after = "pid_gripper
            \<lparr>pid_' := Some \<lparr>kp = Finite 10, ki = round_double 0.1, kd = Finite 0,
                            i_max = round_double 0.2, i_min = fneg (round_double 0.2),
                            integral_accumulator = Finite (3170534137668829 / 2 ^ 59),
                            previous_error = Finite 5.5\<rparr>\<rparr>"
  have load_direct: "Load control_toolbox_Pid (GazeboMimicJointPlugin raw_storage)
       (Some gripper_model) gripper_sdf gripper_node (gripper_world (Finite 0) (Finite 0)) =
     (direct_gripper, ?direct_out)"
    unfolding direct_gripper_eq
    by (subst Load_gripper)
       (simp_all add: gripper_sdf_def HasElement_def double_value_def)
  have load_pid: "Load control_toolbox_Pid (GazeboMimicJointPlugin raw_storage)
       (Some gripper_model) ?pid_sdf gripper_node (gripper_world (Finite 0) (Finite 0)) =
     (pid_gripper, ?pid_out)"
    unfolding pid_gripper_eq
    by (subst Load_gripper)
       (simp_all add: gripper_sdf_def HasElement_def double_value_def)
  have armed: "update_connection_' direct_gripper" "update_connection_' pid_gripper"
    by (simp_all add: direct_gripper_eq pid_gripper_eq)
  have facts: "mimic_joint_' direct_gripper = Some 1" "gripper_sdf ''maxEffort'' = None"
    "\<not> HasElement gripper_sdf ''hasPID''" "?pid_sdf ''maxEffort'' = None"
    "HasElement ?pid_sdf ''hasPID''" "mimic_joint_' pid_gripper = Some 1"
    by (simp_all add: direct_gripper_eq pid_gripper_eq gripper_sdf_def HasElement_def)
  have run: "simulate control_toolbox_computeCommand pid_gripper ?ticks =
     Inr (?after, [SetForce 1 0 (Finite 50)])"
    by (simp add: pid_gripper_eq WorldUpdateBegin_def OnUpdate_def gripper_world_def
        control_toolbox_computeCommand_def control_toolbox_Pid_def binary64)
  from max_effort_default_and_static_capacity[OF load_direct armed(1),
      of control_toolbox_computeCommand "[]"] facts
  have direct: "max_effort_' direct_gripper = GetEffortLimit (gripper_world (Finite 0) (Finite 0) 1)"
    "\<not> has_pid_' direct_gripper"
    "filter is_SetParam ?direct_out = [SetParam 1 ''fmax'' 0 (max_effort_' direct_gripper)]"
    by auto
  from max_effort_default_and_static_capacity[OF load_pid armed(2),
      of control_toolbox_computeCommand ?ticks] facts run
  have pid: "max_effort_' pid_gripper = GetEffortLimit (gripper_world (Finite 0) (Finite 0) 1)"
    "has_pid_' pid_gripper"
    by auto
  have bound: "dless (max_effort_' pid_gripper) (Finite (7740639265161635 / 2 ^ 47))"
    "clamp (Finite (7740639265161635 / 2 ^ 47)) (fneg (max_effort_' pid_gripper))
       (max_effort_' pid_gripper) = max_effort_' pid_gripper"
    by (simp_all add: pid_gripper_eq clamp_def std_min_def std_max_def)
  from load_direct armed facts(1,2) direct load_pid pid run bound
  show ?thesis by (intro conjI) assumption+
qed

end
